theory Spec2Isabelle
  imports Complex_Main "HOL-Library.Word"
begin

chapter \<open>The model\<close>

section \<open>Containers of the C++ standard library\<close>

text \<open>
  A \<^verbatim>\<open>std::map<K, V>\<close> is modelled by the list of its entries in iteration order,
  that is, by ascending key. \<open>ordered\<close> is the representation invariant; \<open>begin()\<close> is the
  head of the list and \<open>rbegin()\<close> its last entry.
\<close>

type_synonym ('k, 'v) std_map = "('k \<times> 'v) list"



text \<open>\<^verbatim>\<open>m[k] = v\<close>: the entry of \<open>k\<close> is created or overwritten, in key order.\<close>

fun map_assign :: "'k::linorder \<Rightarrow> 'v \<Rightarrow> ('k, 'v) std_map \<Rightarrow> ('k, 'v) std_map" where
  "map_assign k v [] = [(k, v)]"
| "map_assign k v (e # m) =
     (if fst e < k then e # map_assign k v m
      else if fst e = k then (k, v) # m
      else (k, v) # e # m)"



section \<open>Debug breakpoint hooks\<close>

text \<open>
  The part of \<^verbatim>\<open>Computer\<close> that \<^verbatim>\<open>db_breakpoint\<close> and \<^verbatim>\<open>db_unsetbreakpoint\<close> touch.
  \<open>breakpoints\<close> is a \<^verbatim>\<open>std::map<int, std::pair<std::string, lua_Integer>>\<close>; the two hook
  fields record the last \<^verbatim>\<open>lua_sethook\<close> on \<^verbatim>\<open>computer->L\<close> and on the calling state
  \<^verbatim>\<open>L\<close>.
\<close>

datatype hook_mask = MASKCOUNT | MASKLINE | MASKRET | MASKCALL | MASKERROR | MASKRESUME | MASKYIELD

datatype hook = NoHook | TermHook "hook_mask list" nat

record Computer_debug =
  breakpoints :: "(int, string \<times> int) std_map"
  hasBreakpoints :: bool
  forceCheckTimeout :: bool
  hook_computer :: hook
  hook_L :: hook

datatype db_error =
  ArgError \<comment> \<open>\<^verbatim>\<open>luaL_checkstring\<close> or \<^verbatim>\<open>luaL_checkinteger\<close> raised a Lua error\<close>



text \<open>
  A value brought into \<^verbatim>\<open>int\<close>: the low 32 bits, read as two's complement. This is the
  cast \<^verbatim>\<open>(int)\<close> of a \<^verbatim>\<open>lua_Integer\<close>, and it is what the machine's addition gives for
  \<^verbatim>\<open>rbegin()->first + 1\<close>: the sum is not checked, and from \<^verbatim>\<open>INT_MAX\<close> it wraps round to
  \<^verbatim>\<open>INT_MIN\<close> (the language leaves that sum undefined).
\<close>

definition to_int :: "int \<Rightarrow> int" where
  "to_int n = sint (word_of_int n :: 32 word)"

definition all_hooks :: hook where
  "all_hooks = TermHook [MASKCOUNT, MASKLINE, MASKRET, MASKCALL, MASKERROR, MASKRESUME, MASKYIELD] 1000000"

text \<open>
  \<^verbatim>\<open>db_breakpoint\<close>. The two arguments are given as the results of the argument checks
  (\<open>None\<close> when the check raises); \<open>fixpath\<close> is the mounter's path normalisation, a parameter.
  The id is computed first, then the pair is built (the checks run there), then it is stored.
\<close>

definition db_breakpoint ::
  "(string \<Rightarrow> string) \<Rightarrow> Computer_debug \<Rightarrow> string option \<Rightarrow> int option \<Rightarrow>
     db_error + (Computer_debug \<times> int)" where
  "db_breakpoint fixpath computer arg1 arg2 =
     (let id' = (if breakpoints computer \<noteq> [] then to_int (fst (last (breakpoints computer)) + 1)
                 else 1)
      in case (arg1, arg2) of
           (Some path, Some line) \<Rightarrow>
             Inr (computer\<lparr>breakpoints := map_assign id' (''@/'' @ fixpath path, line) (breakpoints computer),
                            forceCheckTimeout := (if \<not> hasBreakpoints computer then True
                                                  else forceCheckTimeout computer),
                            hasBreakpoints := True,
                            hook_computer := all_hooks,
                            hook_L := all_hooks\<rparr>, id')
         | _ \<Rightarrow> Inl ArgError)"





section \<open>Instance teardown: detaching the referencers\<close>

text \<open>
  A peripheral object as the destructor of \<^verbatim>\<open>Computer\<close> reads it: the type name of
  \<^verbatim>\<open>getMethods().name\<close> and, for a peripheral of type \<^verbatim>\<open>computer\<close>, the instance
  \<^verbatim>\<open>comp\<close> it points at. Instances are named by numbers (their addresses). The
  peripherals of an instance are a \<^verbatim>\<open>std::map\<close> from the side to the object.
\<close>

record peripheral =
  methods_name :: string
  comp :: nat

type_synonym peripheral_map = "(string, peripheral) std_map"

definition points_at :: "nat \<Rightarrow> peripheral \<Rightarrow> bool" where
  "points_at this p = (methods_name p = ''computer'' \<and> comp p = this)"

text \<open>
  The inner loop of the destructor over one referencer's peripherals, from the iterator's
  position to \<^verbatim>\<open>end()\<close>:
  \<^verbatim>\<open>for (it = begin(); it != end(); ++it)
    if (name == "computer" && comp == this) {
      delete it->second; it = erase(it); if (it == end()) break; }\<close>
  \<^verbatim>\<open>erase\<close> returns the iterator of the entry after the erased one, and the loop's
  \<^verbatim>\<open>++it\<close> then steps over that entry. The result is the entries left in the map and the
  objects deleted.
\<close>

fun detach_loop :: "nat \<Rightarrow> peripheral_map \<Rightarrow> peripheral_map \<times> peripheral list" where
  "detach_loop this [] = ([], [])"
| "detach_loop this (e # rest) =
     (if points_at this (snd e) then
        (case rest of
           [] \<Rightarrow> ([], [snd e])
         | next_e # rest' \<Rightarrow>
             (let (kept, deleted) = detach_loop this rest'
              in (next_e # kept, snd e # deleted)))
      else
        (let (kept, deleted) = detach_loop this rest
         in (e # kept, deleted)))"

text \<open>
  The outer loop over \<^verbatim>\<open>referencers\<close>: each referencer's map is scanned under its
  \<^verbatim>\<open>peripherals_mutex\<close>. \<open>peripherals_of\<close> gives the map of every instance.
\<close>

fun detach_referencers ::
  "nat \<Rightarrow> nat list \<Rightarrow> (nat \<Rightarrow> peripheral_map) \<Rightarrow> (nat \<Rightarrow> peripheral_map) \<times> peripheral list" where
  "detach_referencers this [] peripherals_of = (peripherals_of, [])"
| "detach_referencers this (c # cs) peripherals_of =
     (let (kept, deleted) = detach_loop this (peripherals_of c);
          (peripherals_of', deleted') = detach_referencers this cs (peripherals_of(c := kept))
      in (peripherals_of', deleted @ deleted'))"

section \<open>Lua values and the compile primitive\<close>

text \<open>
  The values of the guest language as the C API shows them: a type tag and, where the code
  reads it, the content. Functions, tables, userdata and coroutines are named by numbers.
\<close>

datatype lval =
    LNil
  | LBoolean bool
  | LNumber real
  | LString string
  | LTable nat
  | LFunction nat
  | LUserdata nat
  | LThread nat

text \<open>The type tests of the C API on a value.\<close>

fun lua_isfunction :: "lval \<Rightarrow> bool" where
  "lua_isfunction (LFunction f) = True"
| "lua_isfunction v = False"

text \<open>
  \<^verbatim>\<open>lua_isstring\<close> accepts strings and numbers, \<^verbatim>\<open>lua_tolstring\<close> converts a number to
  its text and returns \<^verbatim>\<open>NULL\<close> for every other type. How a number is printed
  (\<^verbatim>\<open>lua_number2str\<close>) is a parameter.
\<close>

fun lua_isstring :: "lval \<Rightarrow> bool" where
  "lua_isstring (LString s) = True"
| "lua_isstring (LNumber n) = True"
| "lua_isstring v = False"

fun lua_tolstring :: "(real \<Rightarrow> string) \<Rightarrow> lval \<Rightarrow> string option" where
  "lua_tolstring number2str (LString s) = Some s"
| "lua_tolstring number2str (LNumber n) = Some (number2str n)"
| "lua_tolstring number2str v = None"

text \<open>
  A stack is the list of its values, index 1 first. \<open>lua_isnoneornil stack i\<close> holds for an
  index above the top and for \<^verbatim>\<open>nil\<close>. \<open>pop_values stack n\<close> takes the \<open>n\<close> values on top
  off the stack, in their order; with fewer than \<open>n\<close> values on the stack the C API's
  behaviour is undefined, which is the result \<open>None\<close>. \<^verbatim>\<open>lua_xmove\<close> pushes the values
  it pops on another stack.
\<close>

definition lua_isnoneornil :: "lval list \<Rightarrow> nat \<Rightarrow> bool" where
  "lua_isnoneornil stack i = (length stack < i \<or> stack ! (i - 1) = LNil)"

definition pop_values :: "lval list \<Rightarrow> int \<Rightarrow> (lval list \<times> lval list) option" where
  "pop_values stack n =
     (if 0 \<le> n \<and> nat n \<le> length stack
      then Some (take (length stack - nat n) stack, drop (length stack - nat n) stack)
      else None)"

definition lua_xmove :: "lval list \<Rightarrow> lval list \<Rightarrow> int \<Rightarrow> (lval list \<times> lval list) option" where
  "lua_xmove from to n = map_option (\<lambda>(rest, vals). (rest, to @ vals)) (pop_values from n)"

text \<open>The status codes of \<^verbatim>\<open>lua.h\<close>.\<close>

definition LUA_YIELD :: int where "LUA_YIELD = 1"
definition LUA_ERRRUN :: int where "LUA_ERRRUN = 2"
definition LUA_ERRSYNTAX :: int where "LUA_ERRSYNTAX = 3"
definition LUA_ERRMEM :: int where "LUA_ERRMEM = 4"

text \<open>
  The compile primitive \<^verbatim>\<open>lua_load\<close> is the interpreter's, not this repository's. It is
  modelled by what it does with its reader: the parser asks for one character at a time
  (\<open>NeedChar\<close>, answered by \<open>None\<close> at the end of the input) until it has its result, the
  compiled function or a status and an error value. Which parser it is stays a parameter,
  so what is proved holds for every parser. The buffered input stream between the two
  (\<^verbatim>\<open>luaZ_fill\<close>) calls the reader when the current block is used up; a reader that returns
  \<^verbatim>\<open>NULL\<close> or a block of size 0 signals the end of the input, and an error raised inside
  the reader ends \<^verbatim>\<open>lua_load\<close> with \<^verbatim>\<open>LUA_ERRRUN\<close> and the raised value.
\<close>

datatype parse_result = Compiled lval | Failed int lval

datatype parser = Result parse_result | NeedChar "char option \<Rightarrow> parser"

datatype reader_result = Block string | Null | Raise lval

fun status_of :: "parse_result \<Rightarrow> int \<times> lval" where
  "status_of (Compiled f) = (0, f)"
| "status_of (Failed st msg) = (st, msg)"

text \<open>
  \<^verbatim>\<open>lua_load\<close> with a reader that returns at once: \<open>reader\<close> maps the reader's data to its
  answer and the data afterwards, \<open>buf\<close> is the unread rest of the current block. The result
  is the status with the value pushed on the stack, and the reader's data at the end.
\<close>

primrec lua_load :: "parser \<Rightarrow> ('d \<Rightarrow> reader_result \<times> 'd) \<Rightarrow> string \<Rightarrow> 'd \<Rightarrow> (int \<times> lval) \<times> 'd" where
  "lua_load (Result r) reader buf d = (status_of r, d)"
| "lua_load (NeedChar k) reader buf d =
     (case buf of
        c # cs \<Rightarrow> lua_load (k (Some c)) reader cs d
      | [] \<Rightarrow>
          (case reader d of
             (Block (c # cs), d') \<Rightarrow> lua_load (k (Some c)) reader cs d'
           | (Block [], d') \<Rightarrow> lua_load (k None) reader [] d'
           | (Null, d') \<Rightarrow> lua_load (k None) reader [] d'
           | (Raise v, d') \<Rightarrow> ((LUA_ERRRUN, v), d')))"

text \<open>
  An open \<^verbatim>\<open>FILE\<close>: the bytes not read yet and the end-of-file indicator, which a read
  sets when it finds fewer bytes than it asked for.
\<close>

record FILE =
  unread :: string
  eof :: bool

text \<open>
  \<^verbatim>\<open>file_reader\<close>: \<^verbatim>\<open>if (feof(ud)) return NULL; *size = fread(tmp, 1, 4096, ud); return tmp;\<close>
\<close>

definition file_reader :: "FILE \<Rightarrow> reader_result \<times> FILE" where
  "file_reader ud =
     (if eof ud then (Null, ud)
      else (Block (take 4096 (unread ud)),
            ud\<lparr>unread := drop 4096 (unread ud), eof := (length (unread ud) < 4096)\<rparr>))"


section \<open>The Execution Loop\<close>

text \<open>
  The global \<^verbatim>\<open>::config\<close>, as far as \<^verbatim>\<open>Computer.cpp\<close> reads it, and the other globals
  of the process that the loop reads.
\<close>

datatype mount_mode_t = MOUNT_MODE_NONE | MOUNT_MODE_RO_STRICT | MOUNT_MODE_RO | MOUNT_MODE_RW

record configuration =
  standardsMode :: bool
  abortTimeout :: int
  debug_enable :: bool
  http_enable :: bool
  vanilla :: bool
  serverMode :: bool
  romReadOnly :: bool
  mount_mode :: mount_mode_t

record globals =
  selectedRenderer :: int
  onboardingMode :: int
  script_file :: string
  script_args :: string

text \<open>The configuration of one instance, \<^verbatim>\<open>computer_configuration\<close>.\<close>

record computer_configuration =
  label :: string
  isColor :: bool
  startFullscreen :: bool

text \<open>An entry of the guest-visible event queue: the event's name and its parameters.\<close>

type_synonym event = "string \<times> lval list"

text \<open>
  The fields of \<^verbatim>\<open>Computer\<close> that \<^verbatim>\<open>runComputer\<close> reads and writes. Pointers are
  numbers; \<open>None\<close> is \<^verbatim>\<open>NULL\<close>. \<open>term_is_SDL\<close> is the result of
  \<^verbatim>\<open>dynamic_cast<SDLTerminal*>(self->term)\<close>, \<open>config'\<close> the instance's own configuration
  \<^verbatim>\<open>*self->config\<close>, \<open>peripheral_sides\<close> the keys of the peripheral map.
\<close>

record Computer =
  running :: int
  L :: "nat option"
  eventQueue :: "event list"
  term' :: "nat option"
  term_is_SDL :: bool
  colors :: nat
  isDebugger :: bool
  debugger :: "nat option"
  config' :: computer_configuration
  peripheral_sides :: "string list"
  openWebsockets :: "nat list"
  eventTimeout :: nat

text \<open>
  What the loop does to its collaborators, in the order it does it. The texts shown to the
  operator are named by a constructor each.
\<close>

datatype message =
    Couldnt_load_BIOS
  | Error_loading_bios_lua
  | Error_running_computer
  | Cannot_mount_ROM
  | Failed_to_open_computer
  | Could_not_mount_custom_path
  | Uncaught_exception

datatype action =
    ToggleFullscreen
  | LuaClose nat
  | ResetTerminal nat
  | NewState nat
  | DrainEventQueue
  | Reinitialize string
  | SetRegistry string
  | OpenLibs
  | SetHook
  | AtPanic
  | LoadLibrary string
  | SetGlobal string
  | SetField string string
  | ClearGlobal string
  | ClearField string string
  | LoadPlugins
  | Stderr message
  | DisplayFailure "nat option" message
  | QueueShowMessage "nat option" message
  | AddTimer "32 word"
  | Resume nat
  | GetNextEvent string
  | CallTermPanic
  | NotifyEventLock
  | StopWebsocket nat
  | Deinit string
  | QueueDelete nat
  | ShowSimpleMessageBox message
  | CreateDirectory string

text \<open>
  One incarnation's share of the environment: the global configuration as it stands while
  the instance boots and as it stands when the guest has stopped, the new interpreter state,
  whether plugin errors are pending, the boot script as \<^verbatim>\<open>platform_fopen\<close> returns it
  (\<open>None\<close> for \<^verbatim>\<open>NULL\<close>), the id of the watchdog timer, the display's error flag when the
  guest has stopped, and what each \<^verbatim>\<open>lua_resume\<close> of the main coroutine does.
\<close>

record resume_step =
  status :: int
  yielded :: "string option"
  running_after_resume :: int
  narg_of_event :: nat
  running_after_event :: int

record incarnation =
  config :: configuration
  config_at_exit :: configuration
  new_state :: nat
  plugin_errors :: bool
  bios_file :: "FILE option"
  timer :: nat
  errorMode_at_exit :: bool
  guest :: "resume_step list"

text \<open>\<^verbatim>\<open>while (!self->eventQueue.empty()) self->eventQueue.pop();\<close>\<close>

fun drain :: "event list \<Rightarrow> event list" where
  "drain [] = []"
| "drain (e # q) = drain q"

text \<open>The fixed list \<^verbatim>\<open>libraries\<close>, and which library has a \<^verbatim>\<open>deinit\<close> (a parameter).\<close>

definition libraries :: "string list" where
  "libraries = [''config_lib'', ''fs_lib'', ''mounter_lib'', ''os_lib'', ''peripheral_lib'',
                ''periphemu_lib'', ''rs_lib'', ''term_lib'']"

text \<open>Lines 329 to 367: the display, the new state, the event queue, the peripherals.\<close>

definition new_incarnation :: "incarnation \<Rightarrow> Computer \<Rightarrow> Computer \<times> action list" where
  "new_incarnation inc self =
     (self\<lparr>colors := 240, L := Some (new_state inc), eventQueue := drain (eventQueue self)\<rparr>,
      (case term' self of None \<Rightarrow> [] | Some t \<Rightarrow> [ResetTerminal t])
      @ [NewState (new_state inc), DrainEventQueue]
      @ map Reinitialize (peripheral_sides self)
      @ [SetRegistry ''1'']
      @ (if debug_enable (config inc) then [SetRegistry ''_coroutine_stack''] else []))"

text \<open>Lines 369 to 395: the libraries and the yieldable \<^verbatim>\<open>load\<close>.\<close>

definition load_libraries :: "incarnation \<Rightarrow> Computer \<Rightarrow> action list" where
  "load_libraries inc self =
     [OpenLibs, SetGlobal ''os_date'']
     @ (if debugger self \<noteq> None \<and> \<not> isDebugger self then [SetHook] else [])
     @ [AtPanic]
     @ map LoadLibrary libraries
     @ (if http_enable (config inc) then [LoadLibrary ''http_lib''] else [])
     @ (if isDebugger self \<and> debugger self \<noteq> None then [LoadLibrary ''debugger''] else [])
     @ [SetGlobal ''rs'', SetField ''os'' ''date'', ClearGlobal ''os_date'']
     @ (if standardsMode (config inc) then [SetGlobal ''load''] else [])"

text \<open>
  Lines 397 to 493: the plugins and the globals the configuration takes away. The global
  \<^verbatim>\<open>http\<close> is there when line 381 has loaded the library, that is with \<^verbatim>\<open>http_enable\<close>.
  The block for \<^verbatim>\<open>serverMode\<close>, lines 484 to 492, does not ask: without the library
  \<^verbatim>\<open>lua_getglobal\<close> pushes \<^verbatim>\<open>nil\<close> and \<^verbatim>\<open>lua_setfield\<close> on it raises a Lua error. The
  result is the actions done and whether that error was raised.
\<close>

definition remove_globals :: "incarnation \<Rightarrow> action list \<times> bool" where
  "remove_globals inc =
    ((if \<not> vanilla (config inc)
      then (if plugin_errors inc then [SetGlobal ''_CCPC_PLUGIN_ERRORS''] else []) @ [LoadPlugins]
      else [])
     @ map ClearGlobal [''dofile'', ''loadfile'', ''module'', ''require'', ''package'', ''print'']
     @ (if \<not> debug_enable (config inc)
        then map ClearGlobal [''collectgarbage'', ''debug'', ''newproxy''] else [])
     @ (if vanilla (config inc)
        then map ClearGlobal [''config'', ''mounter'', ''periphemu'']
          @ map (ClearField ''term'')
              [''getGraphicsMode'', ''setGraphicsMode'', ''getPixel'', ''setPixel'', ''drawPixels'',
               ''getPixels'', ''screenshot'', ''showMouse'', ''setFrozen'', ''getFrozen'']
          @ (if http_enable (config inc)
             then map (ClearField ''http'') [''addListener'', ''removeListener''] else [])
          @ (if debug_enable (config inc)
             then map (ClearField ''debug'') [''setbreakpoint'', ''unsetbreakpoint''] else [])
        else [])
     @ (if serverMode (config inc) \<and> http_enable (config inc)
        then map (ClearField ''http'') [''addListener'', ''removeListener''] @ [ClearGlobal ''mounter'']
        else []),
     serverMode (config inc) \<and> \<not> http_enable (config inc))"

text \<open>
  Lines 495 to 540: the startup globals. \<^verbatim>\<open>onboardingMode\<close> is cleared once it has been
  shown. A startup script is taken as given inline.
\<close>

definition default_globals :: "globals \<Rightarrow> globals \<times> action list" where
  "default_globals g =
     (g\<lparr>onboardingMode := (if onboardingMode g = 1 \<or> onboardingMode g = 2 then 0 else onboardingMode g)\<rparr>,
      map SetGlobal [''_CC_DEFAULT_SETTINGS'', ''_CC_DISABLE_LUA51_FEATURES'', ''_HOST'']
      @ (if selectedRenderer g = 1 then [SetGlobal ''_HEADLESS''] else [])
      @ (if onboardingMode g = 1 then [SetGlobal ''_CCPC_FIRST_RUN'']
         else if onboardingMode g = 2 then [SetGlobal ''_CCPC_UPDATED_VERSION''] else [])
      @ (if script_file g \<noteq> [] then [SetGlobal ''_CCPC_STARTUP_SCRIPT''] else [])
      @ (if script_args g \<noteq> [] then [SetGlobal ''_CCPC_STARTUP_ARGS''] else [])
      @ [SetRegistry ''benchmark''])"

text \<open>
  The resume loop, lines 582 to 596:
  \<^verbatim>\<open>while (status == LUA_YIELD && self->running == 1) { status = lua_resume(...); ... }\<close>
  Each pass takes the next step of the guest. The result is the last status, the running
  flag and the actions; \<open>None\<close> when the steps given end while the guest is still running.
\<close>

fun resume_loop :: "resume_step list \<Rightarrow> int \<Rightarrow> nat \<Rightarrow> int \<Rightarrow> (int \<times> int \<times> action list) option" where
  "resume_loop [] st narg run = (if st = LUA_YIELD \<and> run = 1 then None else Some (st, run, []))"
| "resume_loop (step # steps) st narg run =
     (if st = LUA_YIELD \<and> run = 1 then
        (if status step = LUA_YIELD then
           map_option (\<lambda>(st', run', acts).
               (st', run', Resume narg # GetNextEvent (case yielded step of Some f \<Rightarrow> f | None \<Rightarrow> []) # acts))
             (resume_loop steps (status step) (narg_of_event step) (running_after_event step))
         else if status step \<noteq> 0 \<and> running_after_resume step = 1 then
           Some (status step, 0, [Resume narg, CallTermPanic])
         else if running_after_resume step = 1 then
           map_option (\<lambda>(st', run', acts). (st', run', Resume narg # acts))
             (resume_loop steps (status step) narg 0)
         else
           map_option (\<lambda>(st', run', acts). (st', run', Resume narg # acts))
             (resume_loop steps (status step) narg (running_after_resume step)))
      else Some (st, run, []))"

text \<open>Lines 600 to 606: the interpreter state is closed.\<close>

definition shutdown_state :: "(string \<Rightarrow> bool) \<Rightarrow> Computer \<Rightarrow> Computer \<times> action list" where
  "shutdown_state has_deinit self =
     (self\<lparr>openWebsockets := [], L := None\<rparr>,
      [NotifyEventLock]
      @ map StopWebsocket (openWebsockets self)
      @ map Deinit (filter has_deinit libraries)
      @ (case L self of None \<Rightarrow> [] | Some l \<Rightarrow> [LuaClose l]))"

text \<open>
  Lines 329 to 540 together: the instance and the globals after them, and the actions. When
  line 487 raises, the lines after it are not reached.
\<close>

definition boot :: "incarnation \<Rightarrow> Computer \<times> globals \<Rightarrow> Computer \<times> globals \<times> action list" where
  "boot inc sg =
     (let (self, g) = sg;
          (self1, acts1) = new_incarnation inc self;
          (acts3, raised) = remove_globals inc;
          (g', acts4) = default_globals g
      in if raised then (self1, g, acts1 @ load_libraries inc self1 @ acts3)
         else (self1, g', acts1 @ load_libraries inc self1 @ acts3 @ acts4))"

text \<open>
  Lines 552 to 554: the boot script is read with \<^verbatim>\<open>file_reader\<close> from the stream
  \<^verbatim>\<open>platform_fopen\<close> returned. The stream is not checked: with \<^verbatim>\<open>NULL\<close> the calls
  \<^verbatim>\<open>feof\<close> and \<^verbatim>\<open>fclose\<close> read a null pointer, which is the result \<open>None\<close> here.
  \<open>lua_parser\<close> is the interpreter's parser.
\<close>

definition load_bios :: "parser \<Rightarrow> incarnation \<Rightarrow> (int \<times> lval) option" where
  "load_bios lua_parser inc =
     (case bios_file inc of
        None \<Rightarrow> None
      | Some file \<Rightarrow> Some (fst (lua_load lua_parser file_reader [] file)))"

text \<open>Lines 559 to 569: the boot script could not be loaded.\<close>

definition bios_failure :: "incarnation \<Rightarrow> Computer \<Rightarrow> action list" where
  "bios_failure inc self =
     [Stderr Couldnt_load_BIOS,
      if standardsMode (config inc)
      then DisplayFailure (term' self) Error_loading_bios_lua
      else QueueShowMessage (term' self) Couldnt_load_BIOS]"

text \<open>
  How one pass of the outer loop ends: at the \<^verbatim>\<open>return\<close> of the failed boot, at the end
  of the body, in undefined behaviour (a null pointer is read), in a Lua error that no call
  protects (Lua then calls the panic function \<^verbatim>\<open>termPanic\<close> set at line 379, which is
  not part of this file, and ends the process if that returns), or not within the steps
  given.
\<close>

datatype 'a ending =
    Returns 'a "action list"
  | EndOfBody 'a "action list"
  | UndefinedBehaviour "action list"
  | Panics "action list"
  | StillRunning "action list"

fun trace_of :: "'a ending \<Rightarrow> action list" where
  "trace_of (Returns x acts) = acts"
| "trace_of (EndOfBody x acts) = acts"
| "trace_of (UndefinedBehaviour acts) = acts"
| "trace_of (Panics acts) = acts"
| "trace_of (StillRunning acts) = acts"

text \<open>
  Lines 573 to 606: the watchdog, the resume loop, the report of line 598 and the end of the
  interpreter state. \<open>has_deinit\<close> says which libraries have a \<^verbatim>\<open>deinit\<close>. Line 598 reads
  \<^verbatim>\<open>self->term->errorMode\<close>, a null pointer when there is no display.
\<close>

definition run_guest :: "(string \<Rightarrow> bool) \<Rightarrow> incarnation \<Rightarrow> Computer \<Rightarrow> Computer ending" where
  "run_guest has_deinit inc self =
     (let self2 = self\<lparr>running := 1, eventTimeout := timer inc\<rparr>;
          arm = AddTimer (if standardsMode (config inc) then 7000
                          else word_of_int (abortTimeout (config inc)))
      in case resume_loop (guest inc) LUA_YIELD 0 1 of
           None \<Rightarrow> StillRunning [arm]
         | Some (st, run, acts) \<Rightarrow>
             if st = 0 \<and> standardsMode (config_at_exit inc) \<and> term' self2 = None
             then UndefinedBehaviour (arm # acts)
             else
               (let failure =
                      (if st = 0 \<and> standardsMode (config_at_exit inc) \<and> \<not> errorMode_at_exit inc
                       then [DisplayFailure (term' self2) Error_running_computer] else []);
                    (self3, acts') = shutdown_state has_deinit (self2\<lparr>running := run\<rparr>)
                in EndOfBody self3 (arm # acts @ failure @ acts')))"

text \<open>The body of the outer loop, lines 328 to 607.\<close>

definition loop_body ::
  "parser \<Rightarrow> (string \<Rightarrow> bool) \<Rightarrow> incarnation \<Rightarrow> Computer \<times> globals \<Rightarrow> (Computer \<times> globals) ending" where
  "loop_body lua_parser has_deinit inc sg =
     (let (self1, g', acts) = boot inc sg
      in if snd (remove_globals inc) then Panics acts
         else
           (case load_bios lua_parser inc of
              None \<Rightarrow> UndefinedBehaviour acts
            | Some (st, pushed) \<Rightarrow>
                if st \<noteq> 0 \<or> \<not> lua_isfunction pushed
                then Returns (self1, g') (acts @ bios_failure inc self1)
                else
                  (case run_guest has_deinit inc self1 of
                     EndOfBody self3 acts' \<Rightarrow> EndOfBody (self3, g') (acts @ acts')
                   | Returns self3 acts' \<Rightarrow> Returns (self3, g') (acts @ acts')
                   | UndefinedBehaviour acts' \<Rightarrow> UndefinedBehaviour (acts @ acts')
                   | Panics acts' \<Rightarrow> Panics (acts @ acts')
                   | StillRunning acts' \<Rightarrow> StillRunning (acts @ acts'))))"

text \<open>
  \<^verbatim>\<open>runComputer\<close>: the lines before the loop, then \<^verbatim>\<open>while (self->running)\<close> over the
  incarnations. The result is \<open>Returns\<close> for both ways out of the function.
\<close>

fun run_loop ::
  "parser \<Rightarrow> (string \<Rightarrow> bool) \<Rightarrow> incarnation list \<Rightarrow> Computer \<times> globals \<Rightarrow> action list \<Rightarrow>
     (Computer \<times> globals) ending" where
  "run_loop lua_parser has_deinit [] (self, g) acts =
     (if running self \<noteq> 0 then StillRunning acts else Returns (self, g) acts)"
| "run_loop lua_parser has_deinit (inc # incs) (self, g) acts =
     (if running self \<noteq> 0 then
        (case loop_body lua_parser has_deinit inc (self, g) of
           Returns sg' acts' \<Rightarrow> Returns sg' (acts @ acts')
         | EndOfBody sg' acts' \<Rightarrow> run_loop lua_parser has_deinit incs sg' (acts @ acts')
         | UndefinedBehaviour acts' \<Rightarrow> UndefinedBehaviour (acts @ acts')
         | Panics acts' \<Rightarrow> Panics (acts @ acts')
         | StillRunning acts' \<Rightarrow> StillRunning (acts @ acts'))
      else Returns (self, g) acts)"

definition runComputer ::
  "parser \<Rightarrow> (string \<Rightarrow> bool) \<Rightarrow> incarnation list \<Rightarrow> Computer \<times> globals \<Rightarrow> (Computer \<times> globals) ending" where
  "runComputer lua_parser has_deinit incs sg =
     (let (self, g) = sg
      in run_loop lua_parser has_deinit incs (self\<lparr>running := 1\<rparr>, g)
           ((if startFullscreen (config' self) \<and> term_is_SDL self then [ToggleFullscreen] else [])
            @ (case L self of None \<Rightarrow> [] | Some l \<Rightarrow> [LuaClose l])))"

text \<open>
  What is read off the actions. \<open>drained_before_use d acts\<close> scans the actions of an
  instance: \<open>d\<close> says whether the event queue has been drained since the last new interpreter
  state, and every action that opens or loads a library or resumes the guest needs it.
  \<open>armed\<close> lists the intervals of the watchdog timers in the order they were armed.
\<close>

fun is_new_state :: "action \<Rightarrow> bool" where
  "is_new_state (NewState l) = True"
| "is_new_state a = False"

fun drained_before_use :: "bool \<Rightarrow> action list \<Rightarrow> bool" where
  "drained_before_use d [] = True"
| "drained_before_use d (NewState l # acts) = drained_before_use False acts"
| "drained_before_use d (DrainEventQueue # acts) = drained_before_use True acts"
| "drained_before_use d (OpenLibs # acts) = (d \<and> drained_before_use d acts)"
| "drained_before_use d (LoadLibrary lib # acts) = (d \<and> drained_before_use d acts)"
| "drained_before_use d (Resume n # acts) = (d \<and> drained_before_use d acts)"
| "drained_before_use d (a # acts) = drained_before_use d acts"

fun armed :: "action list \<Rightarrow> 32 word list" where
  "armed [] = []"
| "armed (AddTimer t # acts) = t # armed acts"
| "armed (a # acts) = armed acts"

text \<open>The kinds of action that the properties below tell apart.\<close>

fun is_timer :: "action \<Rightarrow> bool" where
  "is_timer (AddTimer t) = True"
| "is_timer a = False"

fun is_report :: "action \<Rightarrow> bool" where
  "is_report (Stderr m) = True"
| "is_report (DisplayFailure t m) = True"
| "is_report (QueueShowMessage t m) = True"
| "is_report (ShowSimpleMessageBox m) = True"
| "is_report a = False"

fun is_resume :: "action \<Rightarrow> bool" where
  "is_resume (Resume n) = True"
| "is_resume a = False"

section \<open>The Instance Lifecycle Manager\<close>

text \<open>
  The globals of the process that the lifecycle code changes: the live-instance list
  \<^verbatim>\<open>computers\<close>, \<^verbatim>\<open>freedComputers\<close>, \<^verbatim>\<open>computerThreads\<close> (one entry per thread, named
  by its instance), \<^verbatim>\<open>orphanedTerminals\<close>, the mounter's flag, and the heap: the
  \<^verbatim>\<open>Terminal\<close> objects alive, by address, and the next address \<^verbatim>\<open>new\<close> hands out.
\<close>

datatype terminal_class = SDLTerminal | CLITerminal | RawTerminal | TRoRTerminal | HardwareSDLTerminal

record Terminal =
  tclass :: terminal_class
  title :: string
  grayscale :: bool
  errorMode :: bool

record process =
  computers :: "nat list"
  freedComputers :: "nat set"
  computerThreads :: "nat list"
  orphanedTerminals :: "nat set"
  mounter_initializing :: bool
  terminals :: "nat \<Rightarrow> Terminal option"
  allocated :: nat

text \<open>
  The collaborators of the constructor, as parameters: the configuration store, the
  mounter (\<open>addMount real_path guest_path read_only\<close> says whether the mount succeeds), string
  conversions, whether the display's constructor returns (it throws otherwise), and the
  directives of the command line.
\<close>

record host =
  getComputerConfig :: "int \<Rightarrow> computer_configuration"
  addMount :: "string \<Rightarrow> string \<Rightarrow> bool \<Rightarrow> bool"
  asciify :: "string \<Rightarrow> string"
  to_string :: "int \<Rightarrow> string"
  getROMPath :: string
  terminal_created :: bool
  customMounts :: "(string \<times> string \<times> int) list"
  customDataDirs :: "int \<Rightarrow> string option"
  computerDir :: string

text \<open>What the constructor builds: the fields it sets.\<close>

record Computer_init =
  id' :: int
  isDebugger' :: bool
  term0 :: "nat option"
  mounts :: "(string \<times> string \<times> bool) list"
  dataDir :: string
  config0 :: computer_configuration

datatype exception = Could_not_mount_ROM | Could_not_mount_debugger_ROM | Terminal_exception

text \<open>
  Lines 82 to 90: the display for the selected renderer; none for renderer 1. The object
  gets the next address. A display whose constructor throws ends the construction.
\<close>

definition new_terminal :: "host \<Rightarrow> globals \<Rightarrow> int \<Rightarrow> bool \<Rightarrow> process \<Rightarrow> exception + (nat option \<times> process)" where
  "new_terminal h g i debug p =
     (let cconfig = getComputerConfig h i;
          term_title =
            (if label cconfig = []
             then ''CraftOS Terminal: '' @ (if debug then ''Debugger'' else ''Computer'') @ '' '' @ to_string h i
             else ''CraftOS Terminal: '' @ asciify h (label cconfig));
          cls = (if selectedRenderer g = 2 then CLITerminal
                 else if selectedRenderer g = 3 then RawTerminal
                 else if selectedRenderer g = 4 then TRoRTerminal
                 else if selectedRenderer g = 5 then HardwareSDLTerminal
                 else SDLTerminal)
      in if selectedRenderer g = 1 then Inr (None, p)
         else if \<not> terminal_created h then Inl Terminal_exception
         else Inr (Some (allocated p),
                   p\<lparr>terminals := (terminals p)(allocated p :=
                         Some \<lparr>tclass = cls, title = term_title, grayscale = \<not> isColor cconfig,
                               errorMode = False\<rparr>),
                      allocated := allocated p + 1\<rparr>))"

text \<open>
  The braces of lines 101 and 102, up to the \<^verbatim>\<open>throw\<close>: the display shows the failure and
  goes to \<^verbatim>\<open>orphanedTerminals\<close>, or is deleted.
\<close>

definition mount_failed :: "configuration \<Rightarrow> nat option \<Rightarrow> process \<Rightarrow> process \<times> action list" where
  "mount_failed cfg t p =
     (case t of
        None \<Rightarrow> (p, [])
      | Some a \<Rightarrow>
          if standardsMode cfg
          then (p\<lparr>orphanedTerminals := insert a (orphanedTerminals p)\<rparr>, [DisplayFailure (Some a) Cannot_mount_ROM])
          else (p\<lparr>terminals := (terminals p)(a := None)\<rparr>, []))"

text \<open>Lines 106 to 114: the mounts of the command line; one that fails is reported and skipped.\<close>

fun custom_mounts :: "host \<Rightarrow> configuration \<Rightarrow> (string \<times> string \<times> int) list \<Rightarrow>
    (string \<times> string \<times> bool) list \<times> action list" where
  "custom_mounts h cfg [] = ([], [])"
| "custom_mounts h cfg ((guest_path, real_path, mode) # ms) =
     (let ro = (if mode = -1 then mount_mode cfg \<noteq> MOUNT_MODE_RW else mode = 0);
          ok = (if mode = -1 \<and> mount_mode cfg = MOUNT_MODE_NONE then False
                else addMount h real_path guest_path ro);
          (mounted, acts) = custom_mounts h cfg ms
      in if ok then ((guest_path, real_path, ro) # mounted, acts)
         else (mounted, Stderr Could_not_mount_custom_path # acts))"

text \<open>
  The constructor \<^verbatim>\<open>Computer::Computer(int i, bool debug)\<close>, as built for a system with
  \<^verbatim>\<open>/\<close> as the separator and the ROM on disk. The result is the exception thrown or the
  object built, with the process afterwards and the actions.
\<close>

definition Computer_new ::
  "host \<Rightarrow> configuration \<Rightarrow> globals \<Rightarrow> int \<Rightarrow> bool \<Rightarrow> process \<Rightarrow>
     (exception + Computer_init) \<times> process \<times> action list" where
  "Computer_new h cfg g i debug p =
     (case new_terminal h g i debug p of
        Inl e \<Rightarrow> (Inl e, p, [])
      | Inr (t, p1) \<Rightarrow>
          (let p2 = p1\<lparr>mounter_initializing := True\<rparr>
           in if \<not> addMount h (getROMPath h @ ''/rom'') ''rom'' (romReadOnly cfg) then
                (let (p3, acts) = mount_failed cfg t p2 in (Inl Could_not_mount_ROM, p3, acts))
              else if debug \<and> \<not> addMount h (getROMPath h @ ''/debug'') ''debug'' True then
                (let (p3, acts) = mount_failed cfg t p2 in (Inl Could_not_mount_debugger_ROM, p3, acts))
              else
                (let (mounted, acts) = custom_mounts h cfg (customMounts h);
                     dir = (case customDataDirs h i of
                              Some d \<Rightarrow> d
                            | None \<Rightarrow> computerDir h @ ''/'' @ to_string h i)
                 in (Inr \<lparr>id' = i, isDebugger' = debug, term0 = t,
                          mounts = (''rom'', getROMPath h @ ''/rom'', romReadOnly cfg)
                                   # (if debug then [(''debug'', getROMPath h @ ''/debug'', True)] else [])
                                   @ mounted,
                          dataDir = dir, config0 = getComputerConfig h i\<rparr>,
                     p2\<lparr>mounter_initializing := False\<rparr>,
                     acts @ [CreateDirectory dir]))))"

text \<open>
  \<^verbatim>\<open>startComputer\<close>. The object takes the next address before its constructor runs; when
  the constructor throws, the memory is given back and the address is never seen. The
  result is the handle (\<open>None\<close> for \<^verbatim>\<open>NULL\<close>), the process and the actions.
\<close>

definition startComputer ::
  "host \<Rightarrow> configuration \<Rightarrow> globals \<Rightarrow> int \<Rightarrow> process \<Rightarrow> nat option \<times> process \<times> action list" where
  "startComputer h cfg g i p =
     (let comp' = allocated p
      in case Computer_new h cfg g i False (p\<lparr>allocated := comp' + 1\<rparr>) of
           (Inl e, p', acts) \<Rightarrow>
             (None, p',
              acts @ [if (selectedRenderer g = 0 \<or> selectedRenderer g = 5) \<and> \<not> standardsMode cfg
                      then ShowSimpleMessageBox Failed_to_open_computer
                      else Stderr Failed_to_open_computer])
         | (Inr c, p', acts) \<Rightarrow>
             (Some comp',
              p'\<lparr>computers := computers p' @ [comp'], computerThreads := computerThreads p' @ [comp']\<rparr>,
              acts))"

text \<open>
  The loop that takes an instance out of \<^verbatim>\<open>computers\<close>, a \<^verbatim>\<open>std::vector\<close>:
  \<^verbatim>\<open>for (it = begin(); it != end(); ++it)
    if (*it == comp) { it = erase(it); if (it == end()) break; }\<close>
\<close>

fun erase_loop :: "nat \<Rightarrow> nat list \<Rightarrow> nat list" where
  "erase_loop comp' [] = []"
| "erase_loop comp' (c # cs) =
     (if c = comp' then (case cs of [] \<Rightarrow> [] | c' # cs' \<Rightarrow> c' # erase_loop comp' cs')
      else c # erase_loop comp' cs)"

text \<open>
  \<^verbatim>\<open>computerThread\<close>, the body of an instance's thread, for a run of the Execution Loop
  that throws nothing: the loop, then the instance leaves the registry and its deletion is
  queued for the main thread.
\<close>

definition computerThread ::
  "parser \<Rightarrow> (string \<Rightarrow> bool) \<Rightarrow> incarnation list \<Rightarrow> nat \<Rightarrow> Computer \<times> globals \<Rightarrow> process \<Rightarrow>
     (Computer \<times> globals \<times> process) ending" where
  "computerThread lua_parser has_deinit incs comp' sg p =
     (let p1 = p\<lparr>freedComputers := freedComputers p - {comp'}\<rparr>
      in case runComputer lua_parser has_deinit incs sg of
           Returns (self, g) acts \<Rightarrow>
             Returns (self, g,
                      p1\<lparr>freedComputers := insert comp' (freedComputers p1),
                         computers := erase_loop comp' (computers p1)\<rparr>)
                     (acts @ [QueueDelete comp'])
         | EndOfBody (self, g) acts \<Rightarrow> EndOfBody (self, g, p1) acts
         | UndefinedBehaviour acts \<Rightarrow> UndefinedBehaviour acts
         | Panics acts \<Rightarrow> Panics acts
         | StillRunning acts \<Rightarrow> StillRunning acts)"


section \<open>The Load Trampoline\<close>

text \<open>
  The context \<^verbatim>\<open>load_ctx\<close> shared by the calling thread and the parser thread, with the
  two stacks it points at: \<open>ctx_L\<close> is the stack of \<^verbatim>\<open>ctx->L\<close>, the calling coroutine,
  and \<open>ctx_coro\<close> the stack of \<^verbatim>\<open>ctx->coro\<close>, the state the parser runs on. \<open>threads\<close>
  counts the coroutines created, to name the next one. The states are 0 (running),
  1 (suspended), 2 (completed) and 3 (cancelled).
\<close>

record load_ctx =
  ctx_status :: int
  ctx_argcount :: int
  ctx_name :: string
  ctx_L :: "lval list"
  ctx_coro :: "lval list"
  threads :: nat

text \<open>
  One call of the guest's reader function in a coroutine of its own, as \<^verbatim>\<open>lua_resume\<close>
  shows it: the call returns values, or yields values and goes on with the values it is
  resumed with, or raises an error. The reader's own state (its upvalues) after the call is
  part of the result. A reader is a function from its state to the call.
\<close>

datatype 's call =
    Return "lval list" 's
  | Yield "lval list" "lval list \<Rightarrow> 's call"
  | Throw lval 's

text \<open>What \<^verbatim>\<open>yield_loader\<close> hands to \<^verbatim>\<open>lua_load\<close>: a block, \<^verbatim>\<open>NULL\<close>, or an error raised.\<close>

datatype 's answer = Chunk string 's | EndOfInput 's | Raised lval

text \<open>
  The parser thread runs from one \<^verbatim>\<open>wait\<close> to the next: it is \<open>Waiting\<close> with the rest
  of its run, a function of the context as the calling thread leaves it when it signals; or
  it has \<open>Ended\<close>; or it has \<open>Crashed\<close> on undefined behaviour. It waits under the lock
  and with the test of the state around the \<^verbatim>\<open>wait\<close>
  (\<^verbatim>\<open>while (ctx->status == 1) ctx->notify.wait(lock)\<close>), so it misses no signal of the
  calling thread.
\<close>

datatype parser_thread =
    Ended
  | Waiting "load_ctx \<Rightarrow> load_ctx \<times> parser_thread"
  | Crashed

text \<open>
  The loop of \<^verbatim>\<open>yield_loader\<close>, from one \<^verbatim>\<open>lua_resume(coro, ctx->argcount)\<close> on. \<open>ret\<close> is
  what \<^verbatim>\<open>lua_load\<close> does with the answer. After a return the first value decides. After a
  yield the values go to the stack of \<^verbatim>\<open>ctx->L\<close>, the state becomes 1 and the thread
  waits; woken in state 3 it raises an error with an empty message, otherwise it takes
  \<^verbatim>\<open>ctx->argcount\<close> values back and resumes the coroutine with them. After an error
  \<^verbatim>\<open>lua_error(L)\<close> raises the value on top of the parser's stack, which is the coroutine
  pushed by \<^verbatim>\<open>lua_newthread\<close>.
\<close>

primrec resume_coro ::
  "(real \<Rightarrow> string) \<Rightarrow> 's call \<Rightarrow> ('s answer \<Rightarrow> load_ctx \<Rightarrow> load_ctx \<times> parser_thread) \<Rightarrow>
     load_ctx \<Rightarrow> load_ctx \<times> parser_thread" where
  "resume_coro number2str (Return vals s') ret ctx =
     (if lua_isnoneornil vals 1 then ret (EndOfInput s') ctx
      else if lua_isstring (vals ! 0) then
        (case lua_tolstring number2str (vals ! 0) of
           Some str \<Rightarrow> ret (Chunk str s') ctx
         | None \<Rightarrow> ret (EndOfInput s') ctx)
      else ret (Raised (LString ''reader function must return a string'')) ctx)"
| "resume_coro number2str (Yield vals k) ret ctx =
     (ctx\<lparr>ctx_status := 1, ctx_argcount := int (length vals), ctx_L := ctx_L ctx @ vals\<rparr>,
      Waiting (\<lambda>ctx'.
        if ctx_status ctx' = 3 then ret (Raised (LString [])) ctx'
        else
          (case lua_xmove (ctx_L ctx') [] (ctx_argcount ctx') of
             None \<Rightarrow> (ctx', Crashed)
           | Some (stack, args) \<Rightarrow>
               resume_coro number2str (k args) ret (ctx'\<lparr>ctx_L := stack, ctx_status := 0\<rparr>))))"
| "resume_coro number2str (Throw v s') ret ctx = ret (Raised (last (ctx_coro ctx))) ctx"

text \<open>
  \<^verbatim>\<open>yield_loader\<close>: a new coroutine for this call, pushed on the parser's stack, gets a copy
  of the reader function (the value at index 1 of \<^verbatim>\<open>ctx->coro\<close>, whose meaning is
  \<open>reader\<close>) and is resumed without arguments.
\<close>

definition yield_loader ::
  "(real \<Rightarrow> string) \<Rightarrow> ('s \<Rightarrow> 's call) \<Rightarrow> 's \<Rightarrow> ('s answer \<Rightarrow> load_ctx \<Rightarrow> load_ctx \<times> parser_thread) \<Rightarrow>
     load_ctx \<Rightarrow> load_ctx \<times> parser_thread" where
  "yield_loader number2str reader s ret ctx =
     resume_coro number2str (reader s) ret
       (ctx\<lparr>ctx_coro := ctx_coro ctx @ [LThread (threads ctx)], threads := threads ctx + 1,
             ctx_argcount := 0\<rparr>)"

text \<open>
  \<^verbatim>\<open>lua_load(ctx->coro, yield_loader, ctx, ctx->name)\<close> on the parser thread: the compile
  primitive as above, with \<^verbatim>\<open>yield_loader\<close> as its reader. At the end the compiled function
  or the error value is on top of the parser's stack and \<open>ret\<close> gets the status.
\<close>

primrec lua_load_yielding ::
  "(real \<Rightarrow> string) \<Rightarrow> ('s \<Rightarrow> 's call) \<Rightarrow> parser \<Rightarrow> string \<Rightarrow> 's \<Rightarrow>
     (int \<Rightarrow> load_ctx \<Rightarrow> load_ctx \<times> parser_thread) \<Rightarrow> load_ctx \<Rightarrow> load_ctx \<times> parser_thread" where
  "lua_load_yielding number2str reader (Result r) buf s ret ctx =
     ret (fst (status_of r)) (ctx\<lparr>ctx_coro := ctx_coro ctx @ [snd (status_of r)]\<rparr>)"
| "lua_load_yielding number2str reader (NeedChar k) buf s ret ctx =
     (case buf of
        c # cs \<Rightarrow> lua_load_yielding number2str reader (k (Some c)) cs s ret ctx
      | [] \<Rightarrow>
          yield_loader number2str reader s
            (\<lambda>ans ctx'. case ans of
                Chunk (c # cs) s' \<Rightarrow> lua_load_yielding number2str reader (k (Some c)) cs s' ret ctx'
              | Chunk [] s' \<Rightarrow> lua_load_yielding number2str reader (k None) [] s' ret ctx'
              | EndOfInput s' \<Rightarrow> lua_load_yielding number2str reader (k None) [] s' ret ctx'
              | Raised v \<Rightarrow> ret LUA_ERRRUN (ctx'\<lparr>ctx_coro := ctx_coro ctx' @ [v]\<rparr>))
            ctx)"

text \<open>
  \<^verbatim>\<open>load_thread\<close> after \<^verbatim>\<open>lua_load\<close> has returned \<open>st\<close>: nothing in state 3; otherwise
  the result goes to the stack of \<^verbatim>\<open>ctx->L\<close>, after a \<^verbatim>\<open>nil\<close> when the load failed, and
  the state becomes 2.
\<close>

definition load_thread_end :: "int \<Rightarrow> load_ctx \<Rightarrow> load_ctx \<times> parser_thread" where
  "load_thread_end st ctx =
     (if ctx_status ctx = 3 then (ctx, Ended)
      else if st = 0 then
        (case lua_xmove (ctx_coro ctx) (ctx_L ctx) 1 of
           None \<Rightarrow> (ctx, Crashed)
         | Some (coro, l) \<Rightarrow>
             (ctx\<lparr>ctx_argcount := 1, ctx_coro := coro, ctx_L := l, ctx_status := 2\<rparr>, Ended))
      else
        (case lua_xmove (ctx_coro ctx) (ctx_L ctx @ [LNil]) 1 of
           None \<Rightarrow> (ctx, Crashed)
         | Some (coro, l) \<Rightarrow>
             (ctx\<lparr>ctx_argcount := 2, ctx_coro := coro, ctx_L := l, ctx_status := 2\<rparr>, Ended)))"

definition load_thread ::
  "(real \<Rightarrow> string) \<Rightarrow> ('s \<Rightarrow> 's call) \<Rightarrow> parser \<Rightarrow> 's \<Rightarrow> load_ctx \<Rightarrow> load_ctx \<times> parser_thread" where
  "load_thread number2str reader lua_parser s ctx =
     lua_load_yielding number2str reader lua_parser [] s load_thread_end ctx"

text \<open>
  How a call of \<^verbatim>\<open>yieldable_load\<close> ends for the guest: it yields values, returns values,
  raises an argument error, hangs in \<^verbatim>\<open>wait\<close>, or meets undefined behaviour.
\<close>

datatype outcome =
    LuaYield "lval list"
  | LuaReturn "lval list"
  | BadArgument nat
  | Hang
  | Undefined

text \<open>
  The calling thread does not wait that way. Its loop, lines 309 to 318, tests the state
  without the lock and then waits without a test, so what it does depends on when the parser
  thread signals: while the calling thread is in \<^verbatim>\<open>wait\<close>; or before the calling thread
  tests the state at line 309; or between that test and the \<^verbatim>\<open>wait\<close> of line 311. In
  the last two cases the signal is gone when the calling thread waits. The scheduler decides,
  once for every call of \<^verbatim>\<open>yieldable_load\<close>.
\<close>

datatype timing =
    Signal_during_wait
  | Signal_before_test
  | Signal_before_wait

text \<open>
  A waiting parser thread that is signalled looks at the state again
  (\<^verbatim>\<open>while (ctx->status == 1) ctx->notify.wait(lock)\<close>) and goes on when it is not 1.
\<close>

definition notify_all :: "load_ctx \<Rightarrow> parser_thread \<Rightarrow> load_ctx \<times> parser_thread" where
  "notify_all ctx th =
     (case th of
        Waiting k \<Rightarrow> if ctx_status ctx = 1 then (ctx, th) else k ctx
      | _ \<Rightarrow> (ctx, th))"

text \<open>
  The loop at the end of \<^verbatim>\<open>yieldable_load\<close>, lines 309 to 318, for the state in which the
  parser thread has stopped. Signalled in its \<^verbatim>\<open>wait\<close>, the calling thread finds state 1
  and yields \<^verbatim>\<open>ctx->argcount\<close> values, keeping in \<^verbatim>\<open>ctx->argcount\<close> the height of the
  stack below them, or finds state 3 and returns nothing, or finds state 2, leaves the loop
  and returns the \<^verbatim>\<open>ctx->argcount\<close> values on top of the stack. When the signal came before
  the test of line 309, the test sees the state the parser thread left: in state 2 the loop
  is not entered and the values are returned, otherwise the calling thread waits for a signal
  that has been sent already, and nothing else will wake it. When the signal came between
  the test and the \<^verbatim>\<open>wait\<close>, the calling thread waits in the same way.
\<close>

definition await :: "timing \<Rightarrow> load_ctx \<times> parser_thread \<Rightarrow> outcome \<times> load_ctx \<times> parser_thread" where
  "await t cth =
     (let (ctx, th) = cth
      in case th of
           Crashed \<Rightarrow> (Undefined, ctx, th)
         | _ \<Rightarrow>
             (case t of
                Signal_during_wait \<Rightarrow>
                  if ctx_status ctx = 1 then
                    (case pop_values (ctx_L ctx) (ctx_argcount ctx) of
                       None \<Rightarrow> (Undefined, ctx, th)
                     | Some (stack, vals) \<Rightarrow>
                         (LuaYield vals,
                          ctx\<lparr>ctx_argcount := int (length (ctx_L ctx)) - ctx_argcount ctx, ctx_L := stack\<rparr>,
                          th))
                  else if ctx_status ctx = 3 then (LuaReturn [], ctx, th)
                  else if ctx_status ctx = 2 then
                    (case pop_values (ctx_L ctx) (ctx_argcount ctx) of
                       None \<Rightarrow> (Undefined, ctx, th)
                     | Some (stack, vals) \<Rightarrow> (LuaReturn vals, ctx, th))
                  else (Hang, ctx, th)
              | Signal_before_test \<Rightarrow>
                  if ctx_status ctx = 2 then
                    (case pop_values (ctx_L ctx) (ctx_argcount ctx) of
                       None \<Rightarrow> (Undefined, ctx, th)
                     | Some (stack, vals) \<Rightarrow> (LuaReturn vals, ctx, th))
                  else (Hang, ctx, th)
              | Signal_before_wait \<Rightarrow> (Hang, ctx, th)))"

text \<open>
  \<^verbatim>\<open>yieldable_load\<close>, first call (no context yet): the arguments are checked, the context
  is allocated (the userdata \<open>u\<close>), the parser thread is started at line 300, and only then,
  at lines 302 to 307, the calling thread sets the state, the name and \<^verbatim>\<open>ctx->L\<close>, creates
  the parser's state \<^verbatim>\<open>ctx->coro\<close> (the coroutine 0, which stays on the caller's stack) and
  moves the reader function there. \<open>early\<close> says that the scheduler lets the parser thread
  run before these lines are done: \<^verbatim>\<open>load_thread\<close> then hands \<^verbatim>\<open>lua_load\<close> a context
  whose fields are not set, which is undefined. Otherwise the parser thread runs on the
  context as line 307 leaves it, and the caller waits. \<^verbatim>\<open>ctx->argcount\<close> starts with
  whatever the memory held, \<open>uninit\<close>.
\<close>

definition yieldable_load ::
  "(real \<Rightarrow> string) \<Rightarrow> ('s \<Rightarrow> 's call) \<Rightarrow> parser \<Rightarrow> 's \<Rightarrow> int \<Rightarrow> nat \<Rightarrow> bool \<Rightarrow> timing \<Rightarrow> lval list \<Rightarrow>
     outcome \<times> load_ctx \<times> parser_thread" where
  "yieldable_load number2str reader lua_parser s uninit u early t args =
     (let none = \<lparr>ctx_status = 0, ctx_argcount = uninit, ctx_name = [], ctx_L = args,
                   ctx_coro = [], threads = 0\<rparr>
      in if args = [] \<or> \<not> lua_isfunction (args ! 0) then (BadArgument 1, none, Ended)
         else if \<not> lua_isnoneornil args 2 \<and> \<not> lua_isstring (args ! 1) then (BadArgument 2, none, Ended)
         else if early then (Undefined, none\<lparr>ctx_L := args @ [LUserdata u]\<rparr>, Crashed)
         else
           (let name = (if lua_isnoneornil args 2 then ''=(load)''
                        else (case lua_tolstring number2str (args ! 1) of Some n \<Rightarrow> n | None \<Rightarrow> []));
                ctx = \<lparr>ctx_status = 0, ctx_argcount = uninit, ctx_name = name,
                       ctx_L = args @ [LUserdata u, LThread 0], ctx_coro = [args ! 0], threads = 1\<rparr>
            in await t (load_thread number2str reader lua_parser s ctx)))"

text \<open>
  \<^verbatim>\<open>yieldable_load\<close> called again with its context, when the guest's scheduler resumes the
  calling coroutine with \<open>args\<close>: the state becomes 0, \<^verbatim>\<open>ctx->argcount\<close> the number of new
  values, the parser thread is signalled, and the caller waits again.
\<close>

definition yieldable_load_continue ::
  "timing \<Rightarrow> load_ctx \<times> parser_thread \<Rightarrow> lval list \<Rightarrow> outcome \<times> load_ctx \<times> parser_thread" where
  "yieldable_load_continue t cth args =
     (let (ctx, th) = cth;
          stack = ctx_L ctx @ args;
          ctx1 = ctx\<lparr>ctx_status := 0, ctx_L := stack,
                     ctx_argcount := int (length stack) - ctx_argcount ctx\<rparr>
      in await t (notify_all ctx1 th))"

text \<open>
  A whole load as the guest's scheduler sees it: the first call, and after every yield a
  resume with the next values of \<open>resumes\<close>, each with the timing of the signal that ends
  this call's wait. The result is the list of the values yielded, one entry per suspension,
  and the outcome of the last call made.
\<close>

fun resume_all ::
  "outcome \<times> load_ctx \<times> parser_thread \<Rightarrow> (lval list \<times> timing) list \<Rightarrow> lval list list \<times> outcome" where
  "resume_all (LuaYield vals, cth) ((args, t) # rest) =
     (let (yields, final) = resume_all (yieldable_load_continue t cth args) rest
      in (vals # yields, final))"
| "resume_all (out, cth) rest = ([], out)"

definition trampoline ::
  "(real \<Rightarrow> string) \<Rightarrow> ('s \<Rightarrow> 's call) \<Rightarrow> parser \<Rightarrow> 's \<Rightarrow> int \<Rightarrow> nat \<Rightarrow> bool \<Rightarrow> timing \<Rightarrow> lval list \<Rightarrow>
     (lval list \<times> timing) list \<Rightarrow> lval list list \<times> outcome" where
  "trampoline number2str reader lua_parser s uninit u early t args resumes =
     resume_all (yieldable_load number2str reader lua_parser s uninit u early t args) resumes"

text \<open>
  \<^verbatim>\<open>load_ctx_gc\<close> on a context whose thread can be joined: the state becomes 3, the parser
  thread is signalled, and \<^verbatim>\<open>join\<close> returns when that thread has ended.
\<close>

definition load_ctx_gc :: "load_ctx \<times> parser_thread \<Rightarrow> load_ctx \<times> parser_thread" where
  "load_ctx_gc cth = (let (ctx, th) = cth in notify_all (ctx\<lparr>ctx_status := 3\<rparr>) th)"

text \<open>
  The readers that C1 speaks of. Such a reader makes its yields in its first call and then
  returns the blocks of the source, one per call, and nothing when no block is left. What it
  yields, and how often, may depend on the values it is resumed with: a \<open>script\<close> is either
  done with yielding, or yields values and goes on as the values of the resume say. The
  state of the reader is the script and the blocks still to return. \<open>yields_of\<close> follows a
  script along the values of the resumes and gives the values yielded, when the script is
  done exactly when the resumes are used up. The reader it is compared with yields nothing:
  it returns the blocks of a list one by one and then \<^verbatim>\<open>NULL\<close>.
\<close>

datatype script = Done | Yields "lval list" "lval list \<Rightarrow> script"

primrec play :: "script \<Rightarrow> 's call \<Rightarrow> 's call" where
  "play Done c = c"
| "play (Yields y k) c = Yield y (\<lambda>args. play (k args) c)"

primrec yields_of :: "script \<Rightarrow> lval list list \<Rightarrow> lval list list option" where
  "yields_of Done resumes = (if resumes = [] then Some [] else None)"
| "yields_of (Yields y k) resumes =
     (case resumes of
        [] \<Rightarrow> None
      | args # rest \<Rightarrow> map_option ((#) y) (yields_of (k args) rest))"

fun next_block :: "string list \<Rightarrow> (script \<times> string list) call" where
  "next_block [] = Return [] (Done, [])"
| "next_block (c # cs) = Return [LString c] (Done, cs)"

definition yielding_reader :: "script \<times> string list \<Rightarrow> (script \<times> string list) call" where
  "yielding_reader s = play (fst s) (next_block (snd s))"

fun plain_reader :: "string list \<Rightarrow> reader_result \<times> string list" where
  "plain_reader [] = (Null, [])"
| "plain_reader (c # cs) = (Block c, cs)"


chapter \<open>Properties\<close>

section \<open>Properties of the ordered maps\<close>








section \<open>Properties of the debug breakpoint hooks\<close>













text \<open>
  At the bound the sum wraps round: with a breakpoint of id \<^verbatim>\<open>INT_MAX\<close> set, the next
  breakpoint gets the id \<^verbatim>\<open>INT_MIN\<close>, which is below every id of the map.
\<close>

lemma db_breakpoint_wraps_at_INT_MAX:
  "db_breakpoint (\<lambda>p. p) \<lparr>breakpoints = [(2147483647, ''@/a'', 7)], hasBreakpoints = True,
           forceCheckTimeout = True, hook_computer = all_hooks, hook_L = all_hooks\<rparr>
         (Some ''b'') (Some 9) =
     Inr (\<lparr>breakpoints = [(- 2147483648, ''@/b'', 9), (2147483647, ''@/a'', 7)],
           hasBreakpoints = True, forceCheckTimeout = True, hook_computer = all_hooks,
           hook_L = all_hooks\<rparr>, - 2147483648)"
  by (simp add: db_breakpoint_def to_int_def)

section \<open>Properties of the referencer detach\<close>

text \<open>A peripheral that does not point at the instance torn down stays in the map.\<close>

lemma detach_loop_keeps_others:
  "e \<in> set m \<Longrightarrow> \<not> points_at this (snd e) \<Longrightarrow> e \<in> set (fst (detach_loop this m))"
proof (induction this m rule: detach_loop.induct)
  case (1 this)
  then show ?case by simp
next
  case (2 this e' rest)
  show ?case
  proof (cases "points_at this (snd e')")
    case True
    note pa = this
    show ?thesis
    proof (cases rest)
      case Nil
      then show ?thesis using 2 pa by auto
    next
      case (Cons n rest')
      then show ?thesis using 2 pa by (auto split: prod.splits)
    qed
  next
    case False
    then show ?thesis using 2 by (auto split: prod.splits)
  qed
qed

text \<open>
  C6, the code at the failing input. Instance 1 holds two \<^verbatim>\<open>computer\<close> peripherals that
  point at instance 0, on the sides \<^verbatim>\<open>left\<close> and \<^verbatim>\<open>right\<close>, next to each other in
  the map. The teardown of instance 0 erases the first and steps over the second: the
  peripheral on \<^verbatim>\<open>right\<close> is still in the map of instance 1 afterwards.
\<close>

theorem detach_skips_entry_after_erased:
  "fst (detach_referencers 0 [1]
     (\<lambda>c. if c = 1 then [(''left'', \<lparr>methods_name = ''computer'', comp = 0\<rparr>),
                          (''right'', \<lparr>methods_name = ''computer'', comp = 0\<rparr>)] else [])) 1
   = [(''right'', \<lparr>methods_name = ''computer'', comp = 0\<rparr>)]"
  by (simp add: points_at_def)

section \<open>Properties of the Execution Loop\<close>

lemma drain_empty: "drain q = []"
  by (induction q) simp_all

lemma drained_no_new_state:
  "\<forall>a \<in> set acts. \<not> is_new_state a \<Longrightarrow> drained_before_use True acts"
  by (induction True acts rule: drained_before_use.induct) simp_all

lemma drained_append:
  "drained_before_use d xs \<Longrightarrow> \<forall>d'. drained_before_use d' ys \<Longrightarrow> drained_before_use d (xs @ ys)"
  by (induction d xs rule: drained_before_use.induct) auto

lemma resume_loop_no_new_state:
  "resume_loop steps st narg run = Some (st', run', acts) \<Longrightarrow> \<forall>a \<in> set acts. \<not> is_new_state a"
proof (induction steps st narg run arbitrary: st' run' acts rule: resume_loop.induct)
  case (1 st narg run)
  then show ?case by (simp split: if_splits)
next
  case (2 step steps st narg run)
  show ?case
  proof (cases "st = LUA_YIELD \<and> run = 1")
    case False
    then show ?thesis using "2.prems" by auto
  next
    case True
    note go = this
    consider (y) "status step = LUA_YIELD"
      | (e) "status step \<noteq> LUA_YIELD" "status step \<noteq> 0 \<and> running_after_resume step = 1"
      | (r) "status step \<noteq> LUA_YIELD" "\<not> (status step \<noteq> 0 \<and> running_after_resume step = 1)" "running_after_resume step = 1"
      | (o) "status step \<noteq> LUA_YIELD" "\<not> (status step \<noteq> 0 \<and> running_after_resume step = 1)" "running_after_resume step \<noteq> 1"
      by blast
    then show ?thesis
    proof cases
      case y
      with go "2.prems" obtain acts0 where
        "resume_loop steps (status step) (narg_of_event step) (running_after_event step) = Some (st', run', acts0)"
        "acts = Resume narg # GetNextEvent (case yielded step of Some f \<Rightarrow> f | None \<Rightarrow> []) # acts0"
        by auto
      with "2.IH"(1) [OF go y] show ?thesis by simp
    next
      case e
      with go "2.prems" show ?thesis by auto
    next
      case r
      with go "2.prems" obtain acts0 where
        "resume_loop steps (status step) narg 0 = Some (st', run', acts0)" "acts = Resume narg # acts0"
        by auto
      with "2.IH"(2) [OF go r(1) r(2) r(3)] show ?thesis by simp
    next
      case o
      with go "2.prems" obtain acts0 where
        "resume_loop steps (status step) narg (running_after_resume step) = Some (st', run', acts0)"
        "acts = Resume narg # acts0"
        by auto
      with "2.IH"(3) [OF go o(1) o(2) o(3)] show ?thesis by simp
    qed
  qed
qed

lemma load_libraries_no_new_state: "\<forall>a \<in> set (load_libraries inc self). \<not> is_new_state a"
  by (auto simp: load_libraries_def)

lemma remove_globals_no_new_state: "\<forall>a \<in> set (fst (remove_globals inc)). \<not> is_new_state a"
  by (auto simp: remove_globals_def)

lemma default_globals_no_new_state: "\<forall>a \<in> set (snd (default_globals g)). \<not> is_new_state a"
  by (auto simp: default_globals_def)

lemma shutdown_state_no_new_state:
  "shutdown_state dn self = (self', acts) \<Longrightarrow> \<forall>a \<in> set acts. \<not> is_new_state a"
  by (auto simp: shutdown_state_def split: option.splits)

lemma bios_failure_no_new_state: "\<forall>a \<in> set (bios_failure inc self). \<not> is_new_state a"
  by (auto simp: bios_failure_def)

lemma run_guest_no_new_state: "\<forall>a \<in> set (trace_of (run_guest dn inc self)). \<not> is_new_state a"
proof (cases "resume_loop (guest inc) LUA_YIELD 0 1")
  case None
  then show ?thesis by (simp add: run_guest_def)
next
  case (Some r)
  then obtain st run acts where r: "resume_loop (guest inc) LUA_YIELD 0 1 = Some (st, run, acts)"
    by (cases r) auto
  obtain self3 acts' where
    s: "shutdown_state dn (self\<lparr>eventTimeout := timer inc, running := run\<rparr>) = (self3, acts')"
    by (cases "shutdown_state dn (self\<lparr>eventTimeout := timer inc, running := run\<rparr>)")
  from resume_loop_no_new_state [OF r] shutdown_state_no_new_state [OF s]
  show ?thesis
    by (auto simp: run_guest_def r s Let_def)
qed

lemma boot_shape:
  obtains self1 g' rest where
    "boot inc (self, g) = (self1, g',
       (case term' self of None \<Rightarrow> [] | Some t \<Rightarrow> [ResetTerminal t])
       @ NewState (new_state inc) # DrainEventQueue # rest)"
    "\<forall>a \<in> set rest. \<not> is_new_state a" "eventQueue self1 = []" "term' self1 = term' self"
proof -
  let ?rest = "map Reinitialize (peripheral_sides self) @ [SetRegistry ''1'']
      @ (if debug_enable (config inc) then [SetRegistry ''_coroutine_stack''] else [])
      @ load_libraries inc (fst (new_incarnation inc self)) @ fst (remove_globals inc)
      @ (if snd (remove_globals inc) then [] else snd (default_globals g))"
  let ?g = "if snd (remove_globals inc) then g else fst (default_globals g)"
  show ?thesis
  proof (rule that [of "fst (new_incarnation inc self)" ?g ?rest])
    show "boot inc (self, g) = (fst (new_incarnation inc self), ?g,
       (case term' self of None \<Rightarrow> [] | Some t \<Rightarrow> [ResetTerminal t])
       @ NewState (new_state inc) # DrainEventQueue # ?rest)"
      by (simp add: boot_def new_incarnation_def split: prod.splits)
    show "\<forall>a \<in> set ?rest. \<not> is_new_state a"
      using load_libraries_no_new_state [of inc "fst (new_incarnation inc self)"]
        remove_globals_no_new_state [of inc] default_globals_no_new_state [of g]
      by (auto simp: ball_Un)
    show "eventQueue (fst (new_incarnation inc self)) = []"
      by (simp add: new_incarnation_def drain_empty)
    show "term' (fst (new_incarnation inc self)) = term' self"
      by (simp add: new_incarnation_def)
  qed
qed

lemma drained_body:
  assumes "\<forall>a \<in> set rest. \<not> is_new_state a"
  shows "drained_before_use d ((case t of None \<Rightarrow> [] | Some t \<Rightarrow> [ResetTerminal t])
       @ NewState l # DrainEventQueue # rest)"
  using drained_no_new_state [OF assms] by (cases t) simp_all

lemma loop_body_shape:
  "\<exists>rest. trace_of (loop_body P dn inc (self, g)) =
       (case term' self of None \<Rightarrow> [] | Some t \<Rightarrow> [ResetTerminal t])
       @ NewState (new_state inc) # DrainEventQueue # rest
     \<and> (\<forall>a \<in> set rest. \<not> is_new_state a)"
proof -
  obtain self1 g' rest where
    b: "boot inc (self, g) = (self1, g',
       (case term' self of None \<Rightarrow> [] | Some t \<Rightarrow> [ResetTerminal t])
       @ NewState (new_state inc) # DrainEventQueue # rest)"
    and r: "\<forall>a \<in> set rest. \<not> is_new_state a"
    by (rule boot_shape)
  have t: "\<exists>tail. trace_of (loop_body P dn inc (self, g)) =
       (case term' self of None \<Rightarrow> [] | Some t \<Rightarrow> [ResetTerminal t])
       @ NewState (new_state inc) # DrainEventQueue # (rest @ tail)
       \<and> (\<forall>a \<in> set tail. \<not> is_new_state a)"
  proof (cases "snd (remove_globals inc)")
    case True
    then show ?thesis by (simp add: loop_body_def b)
  next
    case False
    note np = this
    show ?thesis
    proof (cases "load_bios P inc")
      case None
      then show ?thesis using np by (simp add: loop_body_def b)
    next
      case (Some r)
      then obtain st pushed where l: "load_bios P inc = Some (st, pushed)" by (cases r) auto
      show ?thesis
      proof (cases "st \<noteq> 0 \<or> \<not> lua_isfunction pushed")
        case True
        then show ?thesis using bios_failure_no_new_state [of inc self1] np
          by (auto simp: loop_body_def b l)
      next
        case False
        then show ?thesis using run_guest_no_new_state [of dn inc self1] np
          by (cases "run_guest dn inc self1") (auto simp: loop_body_def b l)
      qed
    qed
  qed
  then obtain tail where
    "trace_of (loop_body P dn inc (self, g)) =
       (case term' self of None \<Rightarrow> [] | Some t \<Rightarrow> [ResetTerminal t])
       @ NewState (new_state inc) # DrainEventQueue # (rest @ tail)"
    "\<forall>a \<in> set (rest @ tail). \<not> is_new_state a"
    using r by auto
  then show ?thesis by blast
qed

lemma loop_body_drained: "drained_before_use d (trace_of (loop_body P dn inc (self, g)))"
proof -
  obtain rest where
    "trace_of (loop_body P dn inc (self, g)) =
       (case term' self of None \<Rightarrow> [] | Some t \<Rightarrow> [ResetTerminal t])
       @ NewState (new_state inc) # DrainEventQueue # rest"
    "\<forall>a \<in> set rest. \<not> is_new_state a"
    using loop_body_shape [of P dn inc self g] by blast
  then show ?thesis using drained_body [of rest d "term' self" "new_state inc"] by simp
qed

lemma run_loop_drained:
  "drained_before_use d acts \<Longrightarrow> drained_before_use d (trace_of (run_loop P dn incs sg acts))"
proof (induction incs arbitrary: sg acts)
  case Nil
  then show ?case by (cases sg) simp
next
  case (Cons inc incs)
  obtain self g where sg: "sg = (self, g)" by (cases sg)
  have b: "drained_before_use d (acts @ trace_of (loop_body P dn inc (self, g)))"
    using Cons.prems loop_body_drained by (simp add: drained_append)
  show ?case
  proof (cases "running self \<noteq> 0")
    case False
    then show ?thesis using Cons.prems sg by simp
  next
    case True
    then show ?thesis using b Cons.IH sg
      by (cases "loop_body P dn inc (self, g)") simp_all
  qed
qed

lemma new_incarnation_forgets_queue:
  "new_incarnation inc (self\<lparr>eventQueue := q\<rparr>) = new_incarnation inc self"
  by (cases self) (simp add: new_incarnation_def drain_empty)

lemma boot_forgets_queue: "boot inc (self\<lparr>eventQueue := q\<rparr>, g) = boot inc (self, g)"
  by (simp add: boot_def new_incarnation_forgets_queue)

lemma boot_fst: "fst (boot inc (self, g)) = fst (new_incarnation inc self)"
  by (cases "snd (remove_globals inc)") (simp_all add: boot_def split: prod.splits)

lemma loop_body_forgets_queue:
  "loop_body P dn inc (self\<lparr>eventQueue := q\<rparr>, g) = loop_body P dn inc (self, g)"
  by (simp add: loop_body_def boot_forgets_queue)

lemma runComputer_forgets_queue:
  "runComputer P dn incs (self\<lparr>eventQueue := q\<rparr>, g) = runComputer P dn incs (self, g)"
proof (cases incs)
  case Nil
  then show ?thesis by (simp add: runComputer_def)
next
  case (Cons inc incs')
  have "self\<lparr>eventQueue := q, running := 1\<rparr> = (self\<lparr>running := 1\<rparr>)\<lparr>eventQueue := q\<rparr>"
    by (cases self) simp
  then have "loop_body P dn inc (self\<lparr>eventQueue := q, running := 1\<rparr>, g) =
      loop_body P dn inc (self\<lparr>running := 1\<rparr>, g)"
    by (simp only: loop_body_forgets_queue)
  then show ?thesis using Cons by (auto simp add: runComputer_def split: ending.splits)
qed

text \<open>
  C10. Every pass through Booting leaves the instance with an empty event queue, and this is
  the instance that the libraries are loaded into and that the guest is run on; what the
  pass does, to its end, is the same whatever the queue held when it began, and so is the
  whole run of the Execution Loop. The actions of a pass begin with the new interpreter
  state and the draining of the queue (after the reset of the display, when there is one),
  and no other interpreter state is made in the pass: all loading of libraries and all
  resumes of the guest come after the draining. In the actions of every run of the Execution
  Loop, whatever the guest, the configuration and the number of reboots, each action that
  opens or loads a library or resumes the guest comes after the draining of the queue of the
  same incarnation. What was in the queue when the incarnation began is gone before the
  guest can be given any of it.
\<close>

theorem event_queue_drained_before_use:
  "eventQueue (fst (boot inc (self, g))) = []
   \<and> loop_body P dn inc (self, g) = loop_body P dn inc (self\<lparr>eventQueue := []\<rparr>, g)
   \<and> runComputer P dn incs (self\<lparr>eventQueue := q\<rparr>, g) = runComputer P dn incs (self, g)
   \<and> (\<exists>rest. trace_of (loop_body P dn inc (self, g)) =
         (case term' self of None \<Rightarrow> [] | Some t \<Rightarrow> [ResetTerminal t])
         @ NewState (new_state inc) # DrainEventQueue # rest
       \<and> list_all (\<lambda>a. \<not> is_new_state a) rest)
   \<and> drained_before_use False (trace_of (runComputer P dn incs (self, g)))"
proof -
  have "drained_before_use False
    ((if startFullscreen (config' self) \<and> term_is_SDL self then [ToggleFullscreen] else [])
            @ (case L self of None \<Rightarrow> [] | Some l \<Rightarrow> [LuaClose l]))"
    by (simp split: option.splits)
  then have 1: "drained_before_use False (trace_of (runComputer P dn incs (self, g)))"
    by (simp add: runComputer_def run_loop_drained)
  have 2: "eventQueue (fst (boot inc (self, g))) = []"
    by (simp add: boot_fst new_incarnation_def drain_empty)
  have 3: "loop_body P dn inc (self, g) = loop_body P dn inc (self\<lparr>eventQueue := []\<rparr>, g)"
    by (simp add: loop_body_forgets_queue)
  have 4: "\<exists>rest. trace_of (loop_body P dn inc (self, g)) =
         (case term' self of None \<Rightarrow> [] | Some t \<Rightarrow> [ResetTerminal t])
         @ NewState (new_state inc) # DrainEventQueue # rest
       \<and> list_all (\<lambda>a. \<not> is_new_state a) rest"
    using loop_body_shape [of P dn inc self g] by (simp add: list_all_iff)
  have 5: "runComputer P dn incs (self\<lparr>eventQueue := q\<rparr>, g) = runComputer P dn incs (self, g)"
    by (rule runComputer_forgets_queue)
  from 2 3 5 4 1 show ?thesis by (intro conjI)
qed

text \<open>
  The theorem at an instance whose queue holds a key press of the incarnation before, with one
  incarnation in standards mode.
\<close>

theorem event_queue_drained_before_use_witness:
  "eventQueue (fst (boot \<lparr>config = \<lparr>standardsMode = True, abortTimeout = 17000, debug_enable = False,
                 http_enable = False, vanilla = False, serverMode = False, romReadOnly = True,
                 mount_mode = MOUNT_MODE_RO\<rparr>,
       config_at_exit = \<lparr>standardsMode = True, abortTimeout = 17000, debug_enable = False,
                 http_enable = False, vanilla = False, serverMode = False, romReadOnly = True,
                 mount_mode = MOUNT_MODE_RO\<rparr>,
       new_state = 1, plugin_errors = False, bios_file = Some \<lparr>unread = [], eof = False\<rparr>,
       timer = 1, errorMode_at_exit = False,
       guest = [\<lparr>status = 0, yielded = None, running_after_resume = 0, narg_of_event = 0,
                 running_after_event = 0\<rparr>]\<rparr>
     (\<lparr>running = 1, L = None, eventQueue = [(''char'', [LString ''a''])], term' = Some 2,
       term_is_SDL = False, colors = 0, isDebugger = False, debugger = None,
       config' = \<lparr>label = [], isColor = True, startFullscreen = False\<rparr>,
       peripheral_sides = [], openWebsockets = [], eventTimeout = 0\<rparr>,
      \<lparr>selectedRenderer = 3, onboardingMode = 0, script_file = [], script_args = []\<rparr>))) = []
   \<and> loop_body (Result (Compiled (LFunction 0))) (\<lambda>lib. False) \<lparr>config = \<lparr>standardsMode = True, abortTimeout = 17000, debug_enable = False,
                 http_enable = False, vanilla = False, serverMode = False, romReadOnly = True,
                 mount_mode = MOUNT_MODE_RO\<rparr>,
       config_at_exit = \<lparr>standardsMode = True, abortTimeout = 17000, debug_enable = False,
                 http_enable = False, vanilla = False, serverMode = False, romReadOnly = True,
                 mount_mode = MOUNT_MODE_RO\<rparr>,
       new_state = 1, plugin_errors = False, bios_file = Some \<lparr>unread = [], eof = False\<rparr>,
       timer = 1, errorMode_at_exit = False,
       guest = [\<lparr>status = 0, yielded = None, running_after_resume = 0, narg_of_event = 0,
                 running_after_event = 0\<rparr>]\<rparr>
     (\<lparr>running = 1, L = None, eventQueue = [(''char'', [LString ''a''])], term' = Some 2,
       term_is_SDL = False, colors = 0, isDebugger = False, debugger = None,
       config' = \<lparr>label = [], isColor = True, startFullscreen = False\<rparr>,
       peripheral_sides = [], openWebsockets = [], eventTimeout = 0\<rparr>,
      \<lparr>selectedRenderer = 3, onboardingMode = 0, script_file = [], script_args = []\<rparr>) =
     loop_body (Result (Compiled (LFunction 0))) (\<lambda>lib. False) \<lparr>config = \<lparr>standardsMode = True, abortTimeout = 17000, debug_enable = False,
                 http_enable = False, vanilla = False, serverMode = False, romReadOnly = True,
                 mount_mode = MOUNT_MODE_RO\<rparr>,
       config_at_exit = \<lparr>standardsMode = True, abortTimeout = 17000, debug_enable = False,
                 http_enable = False, vanilla = False, serverMode = False, romReadOnly = True,
                 mount_mode = MOUNT_MODE_RO\<rparr>,
       new_state = 1, plugin_errors = False, bios_file = Some \<lparr>unread = [], eof = False\<rparr>,
       timer = 1, errorMode_at_exit = False,
       guest = [\<lparr>status = 0, yielded = None, running_after_resume = 0, narg_of_event = 0,
                 running_after_event = 0\<rparr>]\<rparr>
     (\<lparr>running = 1, L = None, eventQueue = [(''char'', [LString ''a''])], term' = Some 2,
       term_is_SDL = False, colors = 0, isDebugger = False, debugger = None,
       config' = \<lparr>label = [], isColor = True, startFullscreen = False\<rparr>,
       peripheral_sides = [], openWebsockets = [], eventTimeout = 0\<rparr>\<lparr>eventQueue := []\<rparr>,
      \<lparr>selectedRenderer = 3, onboardingMode = 0, script_file = [], script_args = []\<rparr>)
   \<and> runComputer (Result (Compiled (LFunction 0))) (\<lambda>lib. False) [\<lparr>config = \<lparr>standardsMode = True, abortTimeout = 17000, debug_enable = False,
                 http_enable = False, vanilla = False, serverMode = False, romReadOnly = True,
                 mount_mode = MOUNT_MODE_RO\<rparr>,
       config_at_exit = \<lparr>standardsMode = True, abortTimeout = 17000, debug_enable = False,
                 http_enable = False, vanilla = False, serverMode = False, romReadOnly = True,
                 mount_mode = MOUNT_MODE_RO\<rparr>,
       new_state = 1, plugin_errors = False, bios_file = Some \<lparr>unread = [], eof = False\<rparr>,
       timer = 1, errorMode_at_exit = False,
       guest = [\<lparr>status = 0, yielded = None, running_after_resume = 0, narg_of_event = 0,
                 running_after_event = 0\<rparr>]\<rparr>]
     (\<lparr>running = 1, L = None, eventQueue = [(''char'', [LString ''a''])], term' = Some 2,
       term_is_SDL = False, colors = 0, isDebugger = False, debugger = None,
       config' = \<lparr>label = [], isColor = True, startFullscreen = False\<rparr>,
       peripheral_sides = [], openWebsockets = [], eventTimeout = 0\<rparr>\<lparr>eventQueue := [(''key'', [LNumber 30])]\<rparr>,
      \<lparr>selectedRenderer = 3, onboardingMode = 0, script_file = [], script_args = []\<rparr>) =
     runComputer (Result (Compiled (LFunction 0))) (\<lambda>lib. False) [\<lparr>config = \<lparr>standardsMode = True, abortTimeout = 17000, debug_enable = False,
                 http_enable = False, vanilla = False, serverMode = False, romReadOnly = True,
                 mount_mode = MOUNT_MODE_RO\<rparr>,
       config_at_exit = \<lparr>standardsMode = True, abortTimeout = 17000, debug_enable = False,
                 http_enable = False, vanilla = False, serverMode = False, romReadOnly = True,
                 mount_mode = MOUNT_MODE_RO\<rparr>,
       new_state = 1, plugin_errors = False, bios_file = Some \<lparr>unread = [], eof = False\<rparr>,
       timer = 1, errorMode_at_exit = False,
       guest = [\<lparr>status = 0, yielded = None, running_after_resume = 0, narg_of_event = 0,
                 running_after_event = 0\<rparr>]\<rparr>]
     (\<lparr>running = 1, L = None, eventQueue = [(''char'', [LString ''a''])], term' = Some 2,
       term_is_SDL = False, colors = 0, isDebugger = False, debugger = None,
       config' = \<lparr>label = [], isColor = True, startFullscreen = False\<rparr>,
       peripheral_sides = [], openWebsockets = [], eventTimeout = 0\<rparr>,
      \<lparr>selectedRenderer = 3, onboardingMode = 0, script_file = [], script_args = []\<rparr>)
   \<and> (\<exists>rest. trace_of (loop_body (Result (Compiled (LFunction 0))) (\<lambda>lib. False) \<lparr>config = \<lparr>standardsMode = True, abortTimeout = 17000, debug_enable = False,
                 http_enable = False, vanilla = False, serverMode = False, romReadOnly = True,
                 mount_mode = MOUNT_MODE_RO\<rparr>,
       config_at_exit = \<lparr>standardsMode = True, abortTimeout = 17000, debug_enable = False,
                 http_enable = False, vanilla = False, serverMode = False, romReadOnly = True,
                 mount_mode = MOUNT_MODE_RO\<rparr>,
       new_state = 1, plugin_errors = False, bios_file = Some \<lparr>unread = [], eof = False\<rparr>,
       timer = 1, errorMode_at_exit = False,
       guest = [\<lparr>status = 0, yielded = None, running_after_resume = 0, narg_of_event = 0,
                 running_after_event = 0\<rparr>]\<rparr>
     (\<lparr>running = 1, L = None, eventQueue = [(''char'', [LString ''a''])], term' = Some 2,
       term_is_SDL = False, colors = 0, isDebugger = False, debugger = None,
       config' = \<lparr>label = [], isColor = True, startFullscreen = False\<rparr>,
       peripheral_sides = [], openWebsockets = [], eventTimeout = 0\<rparr>,
      \<lparr>selectedRenderer = 3, onboardingMode = 0, script_file = [], script_args = []\<rparr>)) =
         (case term' 
     \<lparr>running = 1, L = None, eventQueue = [(''char'', [LString ''a''])], term' = Some 2,
       term_is_SDL = False, colors = 0, isDebugger = False, debugger = None,
       config' = \<lparr>label = [], isColor = True, startFullscreen = False\<rparr>,
       peripheral_sides = [], openWebsockets = [], eventTimeout = 0\<rparr> of None \<Rightarrow> [] | Some t \<Rightarrow> [ResetTerminal t])
         @ NewState (new_state 
     \<lparr>config = \<lparr>standardsMode = True, abortTimeout = 17000, debug_enable = False,
                 http_enable = False, vanilla = False, serverMode = False, romReadOnly = True,
                 mount_mode = MOUNT_MODE_RO\<rparr>,
       config_at_exit = \<lparr>standardsMode = True, abortTimeout = 17000, debug_enable = False,
                 http_enable = False, vanilla = False, serverMode = False, romReadOnly = True,
                 mount_mode = MOUNT_MODE_RO\<rparr>,
       new_state = 1, plugin_errors = False, bios_file = Some \<lparr>unread = [], eof = False\<rparr>,
       timer = 1, errorMode_at_exit = False,
       guest = [\<lparr>status = 0, yielded = None, running_after_resume = 0, narg_of_event = 0,
                 running_after_event = 0\<rparr>]\<rparr>) # DrainEventQueue # rest
       \<and> list_all (\<lambda>a. \<not> is_new_state a) rest)
   \<and> drained_before_use False (trace_of (runComputer (Result (Compiled (LFunction 0))) (\<lambda>lib. False) [\<lparr>config = \<lparr>standardsMode = True, abortTimeout = 17000, debug_enable = False,
                 http_enable = False, vanilla = False, serverMode = False, romReadOnly = True,
                 mount_mode = MOUNT_MODE_RO\<rparr>,
       config_at_exit = \<lparr>standardsMode = True, abortTimeout = 17000, debug_enable = False,
                 http_enable = False, vanilla = False, serverMode = False, romReadOnly = True,
                 mount_mode = MOUNT_MODE_RO\<rparr>,
       new_state = 1, plugin_errors = False, bios_file = Some \<lparr>unread = [], eof = False\<rparr>,
       timer = 1, errorMode_at_exit = False,
       guest = [\<lparr>status = 0, yielded = None, running_after_resume = 0, narg_of_event = 0,
                 running_after_event = 0\<rparr>]\<rparr>]
     (\<lparr>running = 1, L = None, eventQueue = [(''char'', [LString ''a''])], term' = Some 2,
       term_is_SDL = False, colors = 0, isDebugger = False, debugger = None,
       config' = \<lparr>label = [], isColor = True, startFullscreen = False\<rparr>,
       peripheral_sides = [], openWebsockets = [], eventTimeout = 0\<rparr>,
      \<lparr>selectedRenderer = 3, onboardingMode = 0, script_file = [], script_args = []\<rparr>)))"
  by (rule event_queue_drained_before_use)

lemma armed_append: "armed (xs @ ys) = armed xs @ armed ys"
  by (induction xs rule: armed.induct) simp_all

lemma armed_none: "\<forall>a \<in> set acts. \<not> is_timer a \<Longrightarrow> armed acts = []"
  by (induction acts rule: armed.induct) simp_all

lemma resume_loop_no_timer:
  "resume_loop steps st narg run = Some (st', run', acts) \<Longrightarrow> \<forall>a \<in> set acts. \<not> is_timer a"
proof (induction steps st narg run arbitrary: st' run' acts rule: resume_loop.induct)
  case (1 st narg run)
  then show ?case by (simp split: if_splits)
next
  case (2 step steps st narg run)
  show ?case
  proof (cases "st = LUA_YIELD \<and> run = 1")
    case False
    then show ?thesis using "2.prems" by auto
  next
    case True
    note go = this
    consider (y) "status step = LUA_YIELD"
      | (e) "status step \<noteq> LUA_YIELD" "status step \<noteq> 0 \<and> running_after_resume step = 1"
      | (r) "status step \<noteq> LUA_YIELD" "\<not> (status step \<noteq> 0 \<and> running_after_resume step = 1)" "running_after_resume step = 1"
      | (o) "status step \<noteq> LUA_YIELD" "\<not> (status step \<noteq> 0 \<and> running_after_resume step = 1)" "running_after_resume step \<noteq> 1"
      by blast
    then show ?thesis
    proof cases
      case y
      with go "2.prems" obtain acts0 where
        "resume_loop steps (status step) (narg_of_event step) (running_after_event step) = Some (st', run', acts0)"
        "acts = Resume narg # GetNextEvent (case yielded step of Some f \<Rightarrow> f | None \<Rightarrow> []) # acts0"
        by auto
      with "2.IH"(1) [OF go y] show ?thesis by simp
    next
      case e
      with go "2.prems" show ?thesis by auto
    next
      case r
      with go "2.prems" obtain acts0 where
        "resume_loop steps (status step) narg 0 = Some (st', run', acts0)" "acts = Resume narg # acts0"
        by auto
      with "2.IH"(2) [OF go r(1) r(2) r(3)] show ?thesis by simp
    next
      case o
      with go "2.prems" obtain acts0 where
        "resume_loop steps (status step) narg (running_after_resume step) = Some (st', run', acts0)"
        "acts = Resume narg # acts0"
        by auto
      with "2.IH"(3) [OF go o(1) o(2) o(3)] show ?thesis by simp
    qed
  qed
qed

lemma new_incarnation_no_timer: "\<forall>a \<in> set (snd (new_incarnation inc self)). \<not> is_timer a"
  by (auto simp: new_incarnation_def split: option.splits)

lemma load_libraries_no_timer: "\<forall>a \<in> set (load_libraries inc self). \<not> is_timer a"
  by (auto simp: load_libraries_def)

lemma remove_globals_no_timer: "\<forall>a \<in> set (fst (remove_globals inc)). \<not> is_timer a"
  by (auto simp: remove_globals_def)

lemma default_globals_no_timer: "\<forall>a \<in> set (snd (default_globals g)). \<not> is_timer a"
  by (auto simp: default_globals_def)

lemma boot_trace:
  "snd (snd (boot inc (self, g))) =
     snd (new_incarnation inc self) @ load_libraries inc (fst (new_incarnation inc self))
     @ fst (remove_globals inc) @ (if snd (remove_globals inc) then [] else snd (default_globals g))"
  by (simp add: boot_def split: prod.splits)

lemma boot_no_timer: "armed (snd (snd (boot inc sg))) = []"
proof -
  obtain self g where sg: "sg = (self, g)" by (cases sg)
  show ?thesis
    unfolding sg boot_trace armed_append
    using new_incarnation_no_timer load_libraries_no_timer remove_globals_no_timer
      default_globals_no_timer
    by (simp add: armed_none)
qed

lemma run_guest_armed:
  "armed (trace_of (run_guest dn inc self)) =
     [if standardsMode (config inc) then 7000 else word_of_int (abortTimeout (config inc))]"
proof (cases "resume_loop (guest inc) LUA_YIELD 0 1")
  case None
  then show ?thesis by (simp add: run_guest_def)
next
  case (Some r)
  then obtain st run acts where r: "resume_loop (guest inc) LUA_YIELD 0 1 = Some (st, run, acts)"
    by (cases r) auto
  obtain self3 acts' where
    s: "shutdown_state dn (self\<lparr>eventTimeout := timer inc, running := run\<rparr>) = (self3, acts')"
    by (cases "shutdown_state dn (self\<lparr>eventTimeout := timer inc, running := run\<rparr>)")
  have a: "armed acts = []" using resume_loop_no_timer [OF r] by (rule armed_none)
  have "\<forall>a \<in> set acts'. \<not> is_timer a"
    using s by (auto simp: shutdown_state_def split: option.splits)
  then have b: "armed acts' = []" by (rule armed_none)
  show ?thesis
    by (simp add: run_guest_def r s Let_def armed_append a b)
qed

lemma loop_body_armed:
  "armed (trace_of (loop_body P dn inc sg)) =
     (if snd (remove_globals inc) then []
      else case load_bios P inc of
             None \<Rightarrow> []
           | Some (st, pushed) \<Rightarrow>
               if st \<noteq> 0 \<or> \<not> lua_isfunction pushed then []
               else [if standardsMode (config inc) then 7000
                     else word_of_int (abortTimeout (config inc))])"
proof -
  obtain self1 g' acts where b: "boot inc sg = (self1, g', acts)" by (cases "boot inc sg")
  have a: "armed acts = []" using boot_no_timer [of inc sg] by (simp add: b)
  show ?thesis
  proof (cases "snd (remove_globals inc)")
    case True
    then show ?thesis by (simp add: loop_body_def b a)
  next
    case False
    note np = this
    show ?thesis
    proof (cases "load_bios P inc")
      case None
      then show ?thesis using np by (simp add: loop_body_def b a)
    next
      case (Some r)
      then obtain st pushed where l: "load_bios P inc = Some (st, pushed)" by (cases r) auto
      show ?thesis
      proof (cases "st \<noteq> 0 \<or> \<not> lua_isfunction pushed")
        case True
        then show ?thesis using np by (auto simp: loop_body_def b l a armed_append bios_failure_def)
      next
        case False
        then show ?thesis using run_guest_armed [of dn inc self1] np
          by (cases "run_guest dn inc self1") (auto simp: loop_body_def b l a armed_append)
      qed
    qed
  qed
qed

lemma armed_at_most_one:
  assumes "xs = [] \<or> xs = [f inc]"
  shows "\<exists>k \<le> length (inc # incs). ys @ xs = ys @ map f (take k (inc # incs))"
  using assms
proof
  assume "xs = []"
  then have "0 \<le> length (inc # incs) \<and> ys @ xs = ys @ map f (take 0 (inc # incs))" by simp
  then show ?thesis by blast
next
  assume "xs = [f inc]"
  then have "1 \<le> length (inc # incs) \<and> ys @ xs = ys @ map f (take 1 (inc # incs))" by simp
  then show ?thesis by blast
qed

lemma loop_body_EndOfBody_armed:
  assumes "loop_body P dn inc sg = EndOfBody sg' acts'"
  shows "armed acts' = [if standardsMode (config inc) then 7000 else word_of_int (abortTimeout (config inc))]"
proof -
  obtain self1 g' acts where b: "boot inc sg = (self1, g', acts)" by (cases "boot inc sg")
  from assms b have np: "\<not> snd (remove_globals inc)"
    by (auto simp: loop_body_def split: if_splits)
  from assms b np have "\<exists>st pushed. load_bios P inc = Some (st, pushed) \<and> \<not> (st \<noteq> 0 \<or> \<not> lua_isfunction pushed)"
    by (cases "load_bios P inc") (auto simp: loop_body_def split: if_splits)
  then show ?thesis using loop_body_armed [of P dn inc sg] assms np by auto
qed

lemma loop_body_armed_cases:
  "armed (trace_of (loop_body P dn inc sg)) = [] \<or>
   armed (trace_of (loop_body P dn inc sg)) =
     [if standardsMode (config inc) then 7000 else word_of_int (abortTimeout (config inc))]"
  unfolding loop_body_armed by (simp split: option.splits)

lemma run_loop_armed:
  "\<exists>k \<le> length incs. armed (trace_of (run_loop P dn incs sg acts)) =
     armed acts @ map (\<lambda>inc. if standardsMode (config inc) then 7000
                              else word_of_int (abortTimeout (config inc))) (take k incs)"
proof (induction incs arbitrary: sg acts)
  case Nil
  then show ?case by (cases sg) simp
next
  case (Cons inc incs)
  let ?f = "\<lambda>inc. if standardsMode (config inc) then 7000 else word_of_int (abortTimeout (config inc)) :: 32 word"
  obtain self g where sg: "sg = (self, g)" by (cases sg)
  show ?case
  proof (cases "running self \<noteq> 0")
    case False
    then have "0 \<le> length (inc # incs) \<and>
      armed (trace_of (run_loop P dn (inc # incs) sg acts)) = armed acts @ map ?f (take 0 (inc # incs))"
      using sg by simp
    then show ?thesis by blast
  next
    case True
    note run = this
    have one: "armed (trace_of (loop_body P dn inc (self, g))) = [] \<or>
        armed (trace_of (loop_body P dn inc (self, g))) = [?f inc]"
      by (rule loop_body_armed_cases)
    show ?thesis
    proof (cases "loop_body P dn inc (self, g)")
      case (EndOfBody sg' acts')
      from Cons.IH [of sg' "acts @ acts'"] obtain k where
        k: "k \<le> length incs"
        "armed (trace_of (run_loop P dn incs sg' (acts @ acts'))) = armed (acts @ acts') @ map ?f (take k incs)"
        by blast
      have "armed acts' = [?f inc]" using EndOfBody by (rule loop_body_EndOfBody_armed)
      then have "Suc k \<le> length (inc # incs) \<and>
        armed (trace_of (run_loop P dn (inc # incs) sg acts)) = armed acts @ map ?f (take (Suc k) (inc # incs))"
        using k sg run EndOfBody by (simp add: armed_append)
      then show ?thesis by blast
    next
      case (Returns sg' acts')
      then have "armed (trace_of (run_loop P dn (inc # incs) sg acts)) = armed acts @ armed acts'"
        using sg run by (simp add: armed_append)
      moreover have "armed acts' = [] \<or> armed acts' = [?f inc]" using one Returns by simp
      ultimately show ?thesis using armed_at_most_one [of "armed acts'" ?f inc incs "armed acts"] by simp
    next
      case (UndefinedBehaviour acts')
      then have "armed (trace_of (run_loop P dn (inc # incs) sg acts)) = armed acts @ armed acts'"
        using sg run by (simp add: armed_append)
      moreover have "armed acts' = [] \<or> armed acts' = [?f inc]" using one UndefinedBehaviour by simp
      ultimately show ?thesis using armed_at_most_one [of "armed acts'" ?f inc incs "armed acts"] by simp
    next
      case (Panics acts')
      then have "armed (trace_of (run_loop P dn (inc # incs) sg acts)) = armed acts @ armed acts'"
        using sg run by (simp add: armed_append)
      moreover have "armed acts' = [] \<or> armed acts' = [?f inc]" using one Panics by simp
      ultimately show ?thesis using armed_at_most_one [of "armed acts'" ?f inc incs "armed acts"] by simp
    next
      case (StillRunning acts')
      then have "armed (trace_of (run_loop P dn (inc # incs) sg acts)) = armed acts @ armed acts'"
        using sg run by (simp add: armed_append)
      moreover have "armed acts' = [] \<or> armed acts' = [?f inc]" using one StillRunning by simp
      ultimately show ?thesis using armed_at_most_one [of "armed acts'" ?f inc incs "armed acts"] by simp
    qed
  qed
qed

lemma run_loop_trace:
  "trace_of (run_loop P dn incs sg acts) = acts @ trace_of (run_loop P dn incs sg [])"
proof (induction incs arbitrary: sg acts)
  case Nil
  then show ?case by (cases sg) simp
next
  case (Cons inc incs)
  obtain self g where sg: "sg = (self, g)" by (cases sg)
  show ?case
  proof (cases "running self \<noteq> 0")
    case False
    then show ?thesis using sg by simp
  next
    case True
    show ?thesis
    proof (cases "loop_body P dn inc (self, g)")
      case (EndOfBody sg' acts')
      then show ?thesis
        using Cons.IH [of sg' "acts @ acts'"] Cons.IH [of sg' acts'] sg True by simp
    qed (simp_all add: sg True)
  qed
qed

text \<open>
  C9, as amended. An incarnation arms the watchdog exactly when it reaches Running, that is
  when its boot raised nothing and the boot script was loaded as a function, and then once,
  with the interval taken from the global configuration as it stands at that boot: 7000 ms
  when \<^verbatim>\<open>standardsMode\<close> is set, the configured \<^verbatim>\<open>abortTimeout\<close> otherwise. In particular
  every incarnation that goes through to the end of the loop body has armed this interval,
  and after it the Execution Loop goes on with the timers of the incarnations that follow,
  from the state it left: a change of either setting takes effect at the next boot. Over a
  whole run the timers armed are, in order, those of a first part of its incarnations, each
  with the interval of its own boot.
\<close>

theorem watchdog_interval_read_at_boot:
  "armed (trace_of (loop_body P dn inc sg)) =
     (if snd (remove_globals inc) then []
      else case load_bios P inc of
             None \<Rightarrow> []
           | Some (st, pushed) \<Rightarrow>
               if st \<noteq> 0 \<or> \<not> lua_isfunction pushed then []
               else [if standardsMode (config inc) then 7000
                     else word_of_int (abortTimeout (config inc))])
   \<and> (\<forall>sg' acts. loop_body P dn inc sg = EndOfBody sg' acts \<longrightarrow>
         armed acts = [if standardsMode (config inc) then 7000
                       else word_of_int (abortTimeout (config inc))])
   \<and> (\<forall>sg' acts'. running self \<noteq> 0 \<and> loop_body P dn inc (self, g) = EndOfBody sg' acts' \<longrightarrow>
         armed (trace_of (run_loop P dn (inc # incs) (self, g) before)) =
           armed before
           @ (if standardsMode (config inc) then 7000 else word_of_int (abortTimeout (config inc)))
           # armed (trace_of (run_loop P dn incs sg' [])))
   \<and> (\<exists>k \<le> length incs. armed (trace_of (runComputer P dn incs (self, g))) =
         map (\<lambda>inc. if standardsMode (config inc) then 7000
                     else word_of_int (abortTimeout (config inc))) (take k incs))"
proof -
  have "armed ((if startFullscreen (config' self) \<and> term_is_SDL self then [ToggleFullscreen] else [])
            @ (case L self of None \<Rightarrow> [] | Some l \<Rightarrow> [LuaClose l])) = []"
    by (simp split: option.splits)
  then have 4: "\<exists>k \<le> length incs. armed (trace_of (runComputer P dn incs (self, g))) =
         map (\<lambda>inc. if standardsMode (config inc) then 7000
                     else word_of_int (abortTimeout (config inc))) (take k incs)"
    using run_loop_armed [of incs P dn "(self\<lparr>running := 1\<rparr>, g)"
       "(if startFullscreen (config' self) \<and> term_is_SDL self then [ToggleFullscreen] else [])
            @ (case L self of None \<Rightarrow> [] | Some l \<Rightarrow> [LuaClose l])"]
    by (simp add: runComputer_def)
  have 2: "\<forall>sg' acts. loop_body P dn inc sg = EndOfBody sg' acts \<longrightarrow>
         armed acts = [if standardsMode (config inc) then 7000
                       else word_of_int (abortTimeout (config inc))]"
    using loop_body_EndOfBody_armed by blast
  have 3: "\<forall>sg' acts'. running self \<noteq> 0 \<and> loop_body P dn inc (self, g) = EndOfBody sg' acts' \<longrightarrow>
         armed (trace_of (run_loop P dn (inc # incs) (self, g) before)) =
           armed before
           @ (if standardsMode (config inc) then 7000 else word_of_int (abortTimeout (config inc)))
           # armed (trace_of (run_loop P dn incs sg' []))"
  proof (intro allI impI)
    fix sg' acts'
    assume a: "running self \<noteq> 0 \<and> loop_body P dn inc (self, g) = EndOfBody sg' acts'"
    then have "armed acts' = [if standardsMode (config inc) then 7000
                       else word_of_int (abortTimeout (config inc))]"
      using loop_body_EndOfBody_armed [of P dn inc "(self, g)" sg' acts'] by simp
    moreover have "trace_of (run_loop P dn (inc # incs) (self, g) before) =
        (before @ acts') @ trace_of (run_loop P dn incs sg' [])"
      using a run_loop_trace [of P dn incs sg' "before @ acts'"] by simp
    ultimately show "armed (trace_of (run_loop P dn (inc # incs) (self, g) before)) =
           armed before
           @ (if standardsMode (config inc) then 7000 else word_of_int (abortTimeout (config inc)))
           # armed (trace_of (run_loop P dn incs sg' []))"
      by (simp add: armed_append)
  qed
  from loop_body_armed [of P dn inc sg] 2 3 4 show ?thesis by (intro conjI)
qed

text \<open>
  One incarnation in standards mode with a configured timeout of 17000 ms: the guest returns
  at its first resume.
\<close>

lemma loop_body_standards_example:
  "loop_body (Result (Compiled (LFunction 0))) (\<lambda>lib. False)
     \<lparr>config = \<lparr>standardsMode = True, abortTimeout = 17000, debug_enable = False,
                 http_enable = False, vanilla = False, serverMode = False, romReadOnly = True,
                 mount_mode = MOUNT_MODE_RO\<rparr>,
       config_at_exit = \<lparr>standardsMode = True, abortTimeout = 17000, debug_enable = False,
                 http_enable = False, vanilla = False, serverMode = False, romReadOnly = True,
                 mount_mode = MOUNT_MODE_RO\<rparr>,
       new_state = 1, plugin_errors = False, bios_file = Some \<lparr>unread = [], eof = False\<rparr>,
       timer = 1, errorMode_at_exit = False,
       guest = [\<lparr>status = 0, yielded = None, running_after_resume = 0, narg_of_event = 0,
                 running_after_event = 0\<rparr>]\<rparr>
     (\<lparr>running = 1, L = None, eventQueue = [], term' = Some 2, term_is_SDL = False, colors = 0,
       isDebugger = False, debugger = None,
       config' = \<lparr>label = [], isColor = True, startFullscreen = False\<rparr>,
       peripheral_sides = [], openWebsockets = [], eventTimeout = 0\<rparr>,
      \<lparr>selectedRenderer = 3, onboardingMode = 0, script_file = [], script_args = []\<rparr>)
   = EndOfBody
      (\<lparr>running = 0, L = None, eventQueue = [], term' = Some 2, term_is_SDL = False, colors = 240,
       isDebugger = False, debugger = None,
       config' = \<lparr>label = [], isColor = True, startFullscreen = False\<rparr>,
       peripheral_sides = [], openWebsockets = [], eventTimeout = 1\<rparr>,
      \<lparr>selectedRenderer = 3, onboardingMode = 0, script_file = [], script_args = []\<rparr>)
      ([ResetTerminal 2, NewState 1, DrainEventQueue, SetRegistry ''1'', OpenLibs, SetGlobal ''os_date'', AtPanic]
       @ map LoadLibrary libraries
       @ [SetGlobal ''rs'', SetField ''os'' ''date'', ClearGlobal ''os_date'', SetGlobal ''load'',
          LoadPlugins]
       @ map ClearGlobal [''dofile'', ''loadfile'', ''module'', ''require'', ''package'', ''print'',
            ''collectgarbage'', ''debug'', ''newproxy'']
       @ map SetGlobal [''_CC_DEFAULT_SETTINGS'', ''_CC_DISABLE_LUA51_FEATURES'', ''_HOST'']
       @ [SetRegistry ''benchmark'', AddTimer 7000, Resume 0, DisplayFailure (Some 2) Error_running_computer,
          NotifyEventLock, LuaClose 1])"
  by (simp add: loop_body_def boot_def new_incarnation_def load_libraries_def remove_globals_def
      default_globals_def load_bios_def run_guest_def shutdown_state_def LUA_YIELD_def libraries_def)

text \<open>The theorem at this incarnation: its one timer is that of standards mode.\<close>

theorem watchdog_interval_read_at_boot_witness:
  "armed
     ([ResetTerminal 2, NewState 1, DrainEventQueue, SetRegistry ''1'', OpenLibs, SetGlobal ''os_date'', AtPanic]
       @ map LoadLibrary libraries
       @ [SetGlobal ''rs'', SetField ''os'' ''date'', ClearGlobal ''os_date'', SetGlobal ''load'',
          LoadPlugins]
       @ map ClearGlobal [''dofile'', ''loadfile'', ''module'', ''require'', ''package'', ''print'',
            ''collectgarbage'', ''debug'', ''newproxy'']
       @ map SetGlobal [''_CC_DEFAULT_SETTINGS'', ''_CC_DISABLE_LUA51_FEATURES'', ''_HOST'']
       @ [SetRegistry ''benchmark'', AddTimer 7000, Resume 0, DisplayFailure (Some 2) Error_running_computer,
          NotifyEventLock, LuaClose 1]) = [7000]"
  using watchdog_interval_read_at_boot [THEN conjunct2, THEN conjunct1, rule_format,
      OF loop_body_standards_example]
  by simp

text \<open>
  C9 as stated fails: the interval armed is not always the configured value. In standards
  mode the watchdog is armed with the constant 7000 whatever \<^verbatim>\<open>abortTimeout\<close> says.
\<close>

theorem watchdog_interval_not_the_configured_timeout:
  "\<not> (\<forall>P dn inc sg sg' acts. loop_body P dn inc sg = EndOfBody sg' acts \<longrightarrow>
         armed acts = [word_of_int (abortTimeout (config inc))])"
proof
  assume a: "\<forall>P dn inc sg sg' acts. loop_body P dn inc sg = EndOfBody sg' acts \<longrightarrow>
         armed acts = [word_of_int (abortTimeout (config inc))]"
  from a [rule_format, OF loop_body_standards_example]
  have "armed [AddTimer 7000] = [word_of_int 17000]"
    by (simp add: armed_append armed_none libraries_def)
  then show False by simp
qed

lemma new_incarnation_quiet: "\<forall>a \<in> set (snd (new_incarnation inc self)). \<not> is_report a \<and> \<not> is_resume a"
  by (auto simp: new_incarnation_def split: option.splits)

lemma load_libraries_quiet: "\<forall>a \<in> set (load_libraries inc self). \<not> is_report a \<and> \<not> is_resume a"
  by (auto simp: load_libraries_def)

lemma remove_globals_quiet: "\<forall>a \<in> set (fst (remove_globals inc)). \<not> is_report a \<and> \<not> is_resume a"
  by (auto simp: remove_globals_def)

lemma default_globals_quiet: "\<forall>a \<in> set (snd (default_globals g)). \<not> is_report a \<and> \<not> is_resume a"
  by (auto simp: default_globals_def)

lemma boot_quiet: "\<forall>a \<in> set (snd (snd (boot inc (self, g)))). \<not> is_report a \<and> \<not> is_resume a"
  unfolding boot_trace
  using new_incarnation_quiet load_libraries_quiet remove_globals_quiet default_globals_quiet
  by (simp add: ball_Un)

lemma before_loop_quiet:
  "\<forall>a \<in> set ((if startFullscreen (config' self) \<and> term_is_SDL self then [ToggleFullscreen] else [])
            @ (case L self of None \<Rightarrow> [] | Some l \<Rightarrow> [LuaClose l])). \<not> is_report a \<and> \<not> is_resume a"
  by (auto split: option.splits)

text \<open>
  C8, the code at the failing input. When the boot script cannot be opened
  (\<^verbatim>\<open>platform_fopen\<close> returns \<^verbatim>\<open>NULL\<close>), the loop passes the null stream on to
  \<^verbatim>\<open>lua_load\<close> and \<^verbatim>\<open>fclose\<close>: the behaviour is undefined from there, and nothing has
  been reported to the operator or shown on the display up to that point. (In server mode
  without the http library the boot does not get that far: it has raised at line 487, with
  nothing reported either.)
\<close>

theorem boot_script_not_opened:
  "\<exists>acts. runComputer P dn (inc\<lparr>bios_file := None\<rparr> # incs) (self, g) =
       (if serverMode (config inc) \<and> \<not> http_enable (config inc) then Panics acts
        else UndefinedBehaviour acts)
     \<and> list_all (\<lambda>a. \<not> is_report a) acts"
proof -
  let ?inc = "inc\<lparr>bios_file := None\<rparr>"
  let ?pre = "(if startFullscreen (config' self) \<and> term_is_SDL self then [ToggleFullscreen] else [])
            @ (case L self of None \<Rightarrow> [] | Some l \<Rightarrow> [LuaClose l])"
  let ?self = "self\<lparr>running := 1\<rparr>"
  obtain self1 g' acts where b: "boot ?inc (?self, g) = (self1, g', acts)"
    by (cases "boot ?inc (?self, g)")
  have p: "snd (remove_globals ?inc) = (serverMode (config inc) \<and> \<not> http_enable (config inc))"
    by (simp add: remove_globals_def)
  have "loop_body P dn ?inc (?self, g) =
      (if serverMode (config inc) \<and> \<not> http_enable (config inc) then Panics acts
       else UndefinedBehaviour acts)"
    by (simp add: loop_body_def b load_bios_def p)
  then have r: "runComputer P dn (?inc # incs) (self, g) =
      (if serverMode (config inc) \<and> \<not> http_enable (config inc) then Panics (?pre @ acts)
       else UndefinedBehaviour (?pre @ acts))"
    by (simp add: runComputer_def)
  have "\<forall>a \<in> set acts. \<not> is_report a"
    using boot_quiet [of ?inc ?self g] by (simp add: b)
  moreover have "\<forall>a \<in> set ?pre. \<not> is_report a" using before_loop_quiet [of self] by blast
  ultimately have q: "list_all (\<lambda>a. \<not> is_report a) (?pre @ acts)"
    by (simp add: list_all_iff ball_Un)
  show ?thesis
  proof (rule exI [of _ "?pre @ acts"])
    show "runComputer P dn (?inc # incs) (self, g) =
       (if serverMode (config inc) \<and> \<not> http_enable (config inc) then Panics (?pre @ acts)
        else UndefinedBehaviour (?pre @ acts))
     \<and> list_all (\<lambda>a. \<not> is_report a) (?pre @ acts)"
      using r q by (rule conjI)
  qed
qed

text \<open>
  When the boot script could be opened and \<^verbatim>\<open>lua_load\<close> then fails, there is one report
  on the console and one on the display or in a dialog, no resume of the guest and no further
  incarnation; the thread body then takes the instance out of the registry and queues its
  deletion. The interpreter state made for the incarnation is still open at that return:
  line 570 comes before the \<^verbatim>\<open>lua_close\<close> of line 605.
\<close>

lemma bios_failure_reported_once:
  assumes l: "load_bios P inc = Some (st, pushed)" and f: "st \<noteq> 0 \<or> \<not> lua_isfunction pushed"
    and np: "\<not> snd (remove_globals inc)"
  shows "\<exists>self1 g' pre. runComputer P dn (inc # incs) (self, g) =
      Returns (self1, g') (pre @ [Stderr Couldnt_load_BIOS,
          if standardsMode (config inc) then DisplayFailure (term' self) Error_loading_bios_lua
          else QueueShowMessage (term' self) Couldnt_load_BIOS])
     \<and> (\<forall>a \<in> set pre. \<not> is_report a \<and> \<not> is_resume a)
     \<and> L self1 = Some (new_state inc)"
proof -
  let ?pre = "(if startFullscreen (config' self) \<and> term_is_SDL self then [ToggleFullscreen] else [])
            @ (case L self of None \<Rightarrow> [] | Some l \<Rightarrow> [LuaClose l])"
  let ?self = "self\<lparr>running := 1\<rparr>"
  obtain self1 g' acts where b: "boot inc (?self, g) = (self1, g', acts)"
    by (cases "boot inc (?self, g)")
  have t: "term' self1 = term' self"
    using boot_fst [of inc ?self g] by (simp add: b new_incarnation_def)
  have o: "L self1 = Some (new_state inc)"
    using boot_fst [of inc ?self g] by (simp add: b new_incarnation_def)
  have "loop_body P dn inc (?self, g) = Returns (self1, g') (acts @ bios_failure inc self1)"
    using f np by (simp add: loop_body_def b l)
  then have r: "runComputer P dn (inc # incs) (self, g) =
      Returns (self1, g') ((?pre @ acts) @ [Stderr Couldnt_load_BIOS,
          if standardsMode (config inc) then DisplayFailure (term' self) Error_loading_bios_lua
          else QueueShowMessage (term' self) Couldnt_load_BIOS])"
    by (simp add: runComputer_def bios_failure_def t)
  have "\<forall>a \<in> set acts. \<not> is_report a \<and> \<not> is_resume a"
    using boot_quiet [of inc ?self g] by (simp add: b)
  then have "\<forall>a \<in> set (?pre @ acts). \<not> is_report a \<and> \<not> is_resume a"
    using before_loop_quiet [of self] by (simp add: ball_Un)
  with r o show ?thesis by blast
qed

lemma computerThread_after_return:
  assumes "runComputer P dn incs sg = Returns (self', g') acts"
  shows "\<exists>p'. computerThread P dn incs c sg p = Returns (self', g', p') (acts @ [QueueDelete c])
     \<and> c \<in> freedComputers p' \<and> computers p' = erase_loop c (computers p)"
  using assms by (simp add: computerThread_def)

lemma erase_loop_subset: "set (erase_loop c cs) \<subseteq> set cs"
proof (induction c cs rule: erase_loop.induct)
  case (1 comp')
  then show ?case by simp
next
  case (2 comp' c cs)
  show ?case
  proof (cases "c = comp'")
    case True
    then show ?thesis using "2.IH"(1) by (cases cs) auto
  next
    case False
    then show ?thesis using "2.IH"(2) by auto
  qed
qed

lemma erase_loop_distinct: "distinct cs \<Longrightarrow> c \<notin> set (erase_loop c cs)"
proof (induction cs)
  case Nil
  then show ?case by simp
next
  case (Cons a cs)
  show ?case
  proof (cases "a = c")
    case True
    then have "c \<notin> set cs" using Cons.prems by simp
    then show ?thesis using True erase_loop_subset [of c "tl cs"]
      by (cases cs) auto
  next
    case False
    then show ?thesis using Cons by simp
  qed
qed

section \<open>Properties of the Instance Lifecycle Manager\<close>

lemma new_terminal_cases:
  obtains (thrown) "new_terminal h g i d p = Inl Terminal_exception"
  | (none) "new_terminal h g i d p = Inr (None, p)"
  | (made) T where "new_terminal h g i d p =
        Inr (Some (allocated p), p\<lparr>terminals := (terminals p)(allocated p := Some T),
                                   allocated := allocated p + 1\<rparr>)"
proof (cases "selectedRenderer g = 1")
  case True
  then show ?thesis by (intro none) (simp add: new_terminal_def)
next
  case False
  note r = this
  show ?thesis
  proof (cases "terminal_created h")
    case False
    then show ?thesis using r by (intro thrown) (simp add: new_terminal_def)
  next
    case True
    then show ?thesis using r by (intro made) (simp add: new_terminal_def Let_def)
  qed
qed

lemma mount_failed_cases:
  assumes "mount_failed cfg t p = (p', acts)"
  shows "computers p' = computers p \<and> computerThreads p' = computerThreads p
    \<and> freedComputers p' = freedComputers p \<and> allocated p' = allocated p
    \<and> (case t of
          None \<Rightarrow> p' = p \<and> acts = []
        | Some a \<Rightarrow>
            if standardsMode cfg
            then orphanedTerminals p' = insert a (orphanedTerminals p) \<and> terminals p' = terminals p
                 \<and> acts = [DisplayFailure (Some a) Cannot_mount_ROM]
            else orphanedTerminals p' = orphanedTerminals p \<and> terminals p' = (terminals p)(a := None)
                 \<and> acts = [])"
  using assms by (auto simp: mount_failed_def split: option.splits if_splits)

text \<open>
  C7. When the constructor throws, \<^verbatim>\<open>startComputer\<close> returns \<^verbatim>\<open>NULL\<close>; the live-instance
  list and the list of threads are as before; the failure is reported once, in a message box
  or on the console; and the display, when one was built, has been deleted, or taken into
  \<^verbatim>\<open>orphanedTerminals\<close> showing the failure, which happens in standards mode only. No display
  is left that did not exist before and is not in \<^verbatim>\<open>orphanedTerminals\<close>.
\<close>

theorem startComputer_construction_failure:
  assumes fail: "fst (Computer_new h cfg g i False (p\<lparr>allocated := allocated p + 1\<rparr>)) = Inl e"
  shows "\<exists>p' shown. startComputer h cfg g i p =
      (None, p', shown @ [if (selectedRenderer g = 0 \<or> selectedRenderer g = 5) \<and> \<not> standardsMode cfg
                          then ShowSimpleMessageBox Failed_to_open_computer
                          else Stderr Failed_to_open_computer])
    \<and> computers p' = computers p \<and> computerThreads p' = computerThreads p
    \<and> (shown = [] \<and> orphanedTerminals p' = orphanedTerminals p
        \<or> standardsMode cfg \<and> shown = [DisplayFailure (Some (allocated p + 1)) Cannot_mount_ROM]
          \<and> orphanedTerminals p' = insert (allocated p + 1) (orphanedTerminals p))
    \<and> (\<forall>a. terminals p' a \<noteq> None \<longrightarrow> terminals p a \<noteq> None \<or> a \<in> orphanedTerminals p')"
proof -
  let ?p = "p\<lparr>allocated := allocated p + 1\<rparr>"
  let ?r = "if (selectedRenderer g = 0 \<or> selectedRenderer g = 5) \<and> \<not> standardsMode cfg
                          then ShowSimpleMessageBox Failed_to_open_computer
                          else Stderr Failed_to_open_computer"
  show ?thesis
  proof (cases rule: new_terminal_cases [of h g i False ?p])
    case thrown
    then have "startComputer h cfg g i p = (None, ?p, [] @ [?r])"
      by (simp add: startComputer_def Computer_new_def Let_def)
    then show ?thesis by (intro exI [of _ ?p] exI [of _ "[]"]) simp
  next
    case none
    let ?p2 = "?p\<lparr>mounter_initializing := True\<rparr>"
    have rom: "\<not> addMount h (getROMPath h @ ''/rom'') ''rom'' (romReadOnly cfg)"
      using fail none by (auto simp: Computer_new_def Let_def split: if_splits prod.splits)
    then have "startComputer h cfg g i p = (None, ?p2, [] @ [?r])"
      using none by (simp add: startComputer_def Computer_new_def mount_failed_def Let_def)
    then show ?thesis by (intro exI [of _ ?p2] exI [of _ "[]"]) simp
  next
    case (made T)
    let ?t = "allocated p + 1"
    let ?p2 = "p\<lparr>terminals := (terminals p)(?t := Some T), allocated := ?t + 1, mounter_initializing := True\<rparr>"
    have rom: "\<not> addMount h (getROMPath h @ ''/rom'') ''rom'' (romReadOnly cfg)"
      using fail made by (auto simp: Computer_new_def Let_def split: if_splits prod.splits)
    show ?thesis
    proof (cases "standardsMode cfg")
      case True
      let ?p3 = "?p2\<lparr>orphanedTerminals := insert ?t (orphanedTerminals p)\<rparr>"
      have "startComputer h cfg g i p = (None, ?p3, [DisplayFailure (Some ?t) Cannot_mount_ROM] @ [?r])"
        using made rom True by (simp add: startComputer_def Computer_new_def mount_failed_def Let_def)
      then show ?thesis using True
        by (intro exI [of _ ?p3] exI [of _ "[DisplayFailure (Some ?t) Cannot_mount_ROM]"]) simp
    next
      case False
      let ?p3 = "?p2\<lparr>terminals := terminals p\<rparr>"
      have "((terminals p)(?t := Some T))(?t := None) = (terminals p)(?t := None)" by simp
      have "startComputer h cfg g i p = (None, ?p2\<lparr>terminals := (terminals p)(?t := None)\<rparr>, [] @ [?r])"
        using made rom False by (simp add: startComputer_def Computer_new_def mount_failed_def Let_def)
      then show ?thesis using False
        by (intro exI [of _ "?p2\<lparr>terminals := (terminals p)(?t := None)\<rparr>"] exI [of _ "[]"]) simp
    qed
  qed
qed

text \<open>
  The theorem at an empty process, renderer 0, standards mode and a mounter that refuses every
  mount: the display at address 1 shows the failure and is orphaned, the console gets one line.
\<close>

theorem startComputer_construction_failure_witness:
  "fst (Computer_new
         \<lparr>getComputerConfig = (\<lambda>i. \<lparr>label = [], isColor = True, startFullscreen = False\<rparr>),
           addMount = (\<lambda>real_path guest_path read_only. False), asciify = (\<lambda>s. s),
           to_string = (\<lambda>i. ''7''), getROMPath = ''/usr/share/craftos'', terminal_created = True,
           customMounts = [], customDataDirs = (\<lambda>i. None), computerDir = ''/home/computer''\<rparr>
         \<lparr>standardsMode = True, abortTimeout = 17000, debug_enable = False, http_enable = True,
           vanilla = False, serverMode = False, romReadOnly = True, mount_mode = MOUNT_MODE_RO\<rparr>
         \<lparr>selectedRenderer = 0, onboardingMode = 0, script_file = [], script_args = []\<rparr>
         7 False
         (\<lparr>computers = [], freedComputers = {}, computerThreads = [], orphanedTerminals = {},
           mounter_initializing = False, terminals = (\<lambda>a. None), allocated = 0\<rparr>\<lparr>allocated := 0 + 1\<rparr>))
     = Inl Could_not_mount_ROM
   \<and> (\<exists>p'. startComputer
         \<lparr>getComputerConfig = (\<lambda>i. \<lparr>label = [], isColor = True, startFullscreen = False\<rparr>),
           addMount = (\<lambda>real_path guest_path read_only. False), asciify = (\<lambda>s. s),
           to_string = (\<lambda>i. ''7''), getROMPath = ''/usr/share/craftos'', terminal_created = True,
           customMounts = [], customDataDirs = (\<lambda>i. None), computerDir = ''/home/computer''\<rparr>
         \<lparr>standardsMode = True, abortTimeout = 17000, debug_enable = False, http_enable = True,
           vanilla = False, serverMode = False, romReadOnly = True, mount_mode = MOUNT_MODE_RO\<rparr>
         \<lparr>selectedRenderer = 0, onboardingMode = 0, script_file = [], script_args = []\<rparr>
         7
         \<lparr>computers = [], freedComputers = {}, computerThreads = [], orphanedTerminals = {},
           mounter_initializing = False, terminals = (\<lambda>a. None), allocated = 0\<rparr>
       = (None, p', [DisplayFailure (Some 1) Cannot_mount_ROM, Stderr Failed_to_open_computer])
       \<and> computers p' = [] \<and> computerThreads p' = [] \<and> orphanedTerminals p' = {1})"
proof -
  let ?h = "\<lparr>getComputerConfig = (\<lambda>i. \<lparr>label = [], isColor = True, startFullscreen = False\<rparr>),
           addMount = (\<lambda>real_path guest_path read_only. False), asciify = (\<lambda>s. s),
           to_string = (\<lambda>i. ''7''), getROMPath = ''/usr/share/craftos'', terminal_created = True,
           customMounts = [], customDataDirs = (\<lambda>i. None), computerDir = ''/home/computer''\<rparr>"
  let ?cfg = "\<lparr>standardsMode = True, abortTimeout = 17000, debug_enable = False, http_enable = True,
           vanilla = False, serverMode = False, romReadOnly = True, mount_mode = MOUNT_MODE_RO\<rparr>"
  let ?g = "\<lparr>selectedRenderer = 0, onboardingMode = 0, script_file = [], script_args = []\<rparr>"
  let ?p = "\<lparr>computers = [], freedComputers = {}, computerThreads = [], orphanedTerminals = {},
           mounter_initializing = False, terminals = (\<lambda>a. None), allocated = 0\<rparr>"
  have f: "fst (Computer_new ?h ?cfg ?g 7 False (?p\<lparr>allocated := allocated ?p + 1\<rparr>)) = Inl Could_not_mount_ROM"
    by (simp add: Computer_new_def new_terminal_def mount_failed_def Let_def)
  from startComputer_construction_failure [OF f] obtain p' shown where
    s: "startComputer ?h ?cfg ?g 7 ?p = (None, p', shown @ [Stderr Failed_to_open_computer])"
    and c: "computers p' = []" "computerThreads p' = []"
    and d: "shown = [] \<and> orphanedTerminals p' = {}
        \<or> shown = [DisplayFailure (Some 1) Cannot_mount_ROM] \<and> orphanedTerminals p' = {1}"
    by auto
  have "snd (snd (startComputer ?h ?cfg ?g 7 ?p)) \<noteq> [Stderr Failed_to_open_computer]"
    by (simp add: startComputer_def Computer_new_def new_terminal_def mount_failed_def Let_def)
  with s d have "shown = [DisplayFailure (Some 1) Cannot_mount_ROM] \<and> orphanedTerminals p' = {1}"
    by auto
  with s c f show ?thesis by auto
qed

section \<open>Properties of the Load Trampoline\<close>

subsection \<open>What the reader's return values mean\<close>

text \<open>
  C3, as amended. When the reader's coroutine returns, \<^verbatim>\<open>yield_loader\<close> answers the compile
  primitive by the first value returned alone: no value or \<^verbatim>\<open>nil\<close> ends the input; a
  string is the next block; a number is the next block too, as the text
  \<^verbatim>\<open>lua_tolstring\<close> makes of it, because \<^verbatim>\<open>lua_isstring\<close> holds of numbers; a value of
  any other type raises the error that the reader function must return a string.
\<close>

theorem yield_loader_answer:
  "resume_coro number2str (Return vals s') ret ctx =
     ret (case vals of
            [] \<Rightarrow> EndOfInput s'
          | LNil # rest \<Rightarrow> EndOfInput s'
          | LString str # rest \<Rightarrow> Chunk str s'
          | LNumber n # rest \<Rightarrow> Chunk (number2str n) s'
          | other # rest \<Rightarrow> Raised (LString ''reader function must return a string'')) ctx"
proof (cases vals)
  case Nil
  then show ?thesis by (simp add: lua_isnoneornil_def)
next
  case (Cons v more)
  then show ?thesis by (cases v) (simp_all add: lua_isnoneornil_def)
qed

text \<open>
  C3 as stated fails: not every value that is neither absent, \<^verbatim>\<open>nil\<close> nor a string makes
  the load fail. The reader that returns the number 5 gives the block \<^verbatim>\<open>5\<close>.
\<close>

theorem number_is_fed_as_block:
  "\<not> (\<forall>number2str v rest s' ctx (ret :: unit answer \<Rightarrow> load_ctx \<Rightarrow> load_ctx \<times> parser_thread).
        v \<noteq> LNil \<and> (\<forall>str. v \<noteq> LString str) \<longrightarrow>
        resume_coro number2str (Return (v # rest) s') ret ctx =
          ret (Raised (LString ''reader function must return a string'')) ctx)"
proof
  assume a: "\<forall>number2str v rest s' ctx (ret :: unit answer \<Rightarrow> load_ctx \<Rightarrow> load_ctx \<times> parser_thread).
        v \<noteq> LNil \<and> (\<forall>str. v \<noteq> LString str) \<longrightarrow>
        resume_coro number2str (Return (v # rest) s') ret ctx =
          ret (Raised (LString ''reader function must return a string'')) ctx"
  let ?ret = "\<lambda>(ans :: unit answer) (ctx :: load_ctx). (ctx, case ans of Raised e \<Rightarrow> Crashed | _ \<Rightarrow> Ended)"
  let ?ctx = "\<lparr>ctx_status = 0, ctx_argcount = 0, ctx_name = [], ctx_L = [], ctx_coro = [], threads = 0\<rparr>"
  from a [rule_format, of "LNumber 5" "\<lambda>n. ''5''" "[]" "()" ?ret ?ctx]
  have "resume_coro (\<lambda>n. ''5'') (Return [LNumber 5] ()) ?ret ?ctx =
      ?ret (Raised (LString ''reader function must return a string'')) ?ctx"
    by simp
  then show False by (simp add: lua_isnoneornil_def)
qed

subsection \<open>The end of the parser thread\<close>

lemma pop_values_append: "pop_values (stack @ vals) (int (length vals)) = Some (stack, vals)"
  by (simp add: pop_values_def)

lemma lua_xmove_append: "lua_xmove (stack @ vals) to (int (length vals)) = Some (stack, to @ vals)"
  by (simp add: lua_xmove_def pop_values_append)

lemma load_thread_end_moves:
  assumes "ctx_coro ctx = stack @ [v]"
  shows "load_thread_end st ctx =
     (if ctx_status ctx = 3 then (ctx, Ended)
      else (ctx\<lparr>ctx_argcount := (if st = 0 then 1 else 2), ctx_coro := stack,
                 ctx_L := ctx_L ctx @ (if st = 0 then [v] else [LNil, v]), ctx_status := 2\<rparr>, Ended))"
  using assms by (simp add: load_thread_end_def lua_xmove_def pop_values_def)

lemma await_completed:
  assumes "t \<noteq> Signal_before_wait" and "ctx_status ctx = 2" and "ctx_L ctx = stack @ vals"
    and "ctx_argcount ctx = int (length vals)"
  shows "await t (ctx, Ended) = (LuaReturn vals, ctx, Ended)"
  using assms pop_values_append [of stack vals] by (cases t) (simp_all add: await_def)

text \<open>
  C2, as amended. When \<^verbatim>\<open>lua_load\<close> has returned with its result on top of the parser's
  stack, the compiled function after a success and the message of the error after a failure,
  the parser thread ends, and it does not crash. In state 3 (cancelled) it changes nothing:
  the state stays 3 and no value is transferred. In every other state it makes the state 2
  (completed) and moves to the stack of the calling coroutine one value, the function, when
  the load succeeded, and two values, \<^verbatim>\<open>nil\<close> and then the message, when it failed; the
  call that waits for it and is not past the test of line 309 when the signal comes returns
  these values to the guest.
\<close>

theorem load_thread_end_transfers:
  assumes top: "ctx_coro ctx = stack @ [v]"
    and ok: "st = 0 \<Longrightarrow> v = LFunction f"
    and err: "st \<noteq> 0 \<Longrightarrow> v = LString msg"
  shows "load_thread_end st ctx =
     (if ctx_status ctx = 3 then (ctx, Ended)
      else (ctx\<lparr>ctx_argcount := (if st = 0 then 1 else 2), ctx_coro := stack,
                 ctx_L := ctx_L ctx @ (if st = 0 then [LFunction f] else [LNil, LString msg]),
                 ctx_status := 2\<rparr>, Ended))
   \<and> (ctx_status ctx \<noteq> 3 \<and> t \<noteq> Signal_before_wait \<longrightarrow>
        fst (await t (load_thread_end st ctx)) =
          LuaReturn (if st = 0 then [LFunction f] else [LNil, LString msg]))"
proof -
  let ?vals = "if st = 0 then [LFunction f] else [LNil, LString msg]"
  let ?ctx = "ctx\<lparr>ctx_argcount := (if st = 0 then 1 else 2), ctx_coro := stack,
                 ctx_L := ctx_L ctx @ ?vals, ctx_status := 2\<rparr>"
  have e: "load_thread_end st ctx = (if ctx_status ctx = 3 then (ctx, Ended) else (?ctx, Ended))"
    using load_thread_end_moves [OF top, of st] ok err by (cases "st = 0") simp_all
  have "await t (?ctx, Ended) = (LuaReturn ?vals, ?ctx, Ended)" if "t \<noteq> Signal_before_wait"
    using that by (rule await_completed [of t ?ctx "ctx_L ctx" ?vals]) simp_all
  then show ?thesis unfolding e by simp
qed

text \<open>
  The theorem at a failed load: the message of the syntax error is on top of the parser's
  stack, the caller's stack holds the reader function, the context and the parser's state.
\<close>

theorem load_thread_end_transfers_witness:
  "load_thread_end LUA_ERRSYNTAX
      \<lparr>ctx_status = 0, ctx_argcount = 0, ctx_name = ''=(load)'',
        ctx_L = [LFunction 1, LUserdata 9, LThread 0],
        ctx_coro = [LFunction 1, LThread 1, LString ''unexpected symbol''], threads = 2\<rparr> =
     (\<lparr>ctx_status = 2, ctx_argcount = 2, ctx_name = ''=(load)'',
        ctx_L = [LFunction 1, LUserdata 9, LThread 0, LNil, LString ''unexpected symbol''],
        ctx_coro = [LFunction 1, LThread 1], threads = 2\<rparr>, Ended)
   \<and> fst (await Signal_during_wait (load_thread_end LUA_ERRSYNTAX
      \<lparr>ctx_status = 0, ctx_argcount = 0, ctx_name = ''=(load)'',
        ctx_L = [LFunction 1, LUserdata 9, LThread 0],
        ctx_coro = [LFunction 1, LThread 1, LString ''unexpected symbol''], threads = 2\<rparr>)) =
     LuaReturn [LNil, LString ''unexpected symbol'']"
proof -
  let ?ctx = "\<lparr>ctx_status = 0, ctx_argcount = 0, ctx_name = ''=(load)'',
        ctx_L = [LFunction 1, LUserdata 9, LThread 0],
        ctx_coro = [LFunction 1, LThread 1, LString ''unexpected symbol''], threads = 2\<rparr>"
  note T = load_thread_end_transfers [where ctx = ?ctx and stack = "[LFunction 1, LThread 1]"
      and v = "LString ''unexpected symbol''" and st = LUA_ERRSYNTAX and f = 0
      and msg = "''unexpected symbol''" and t = Signal_during_wait]
  have a: "load_thread_end LUA_ERRSYNTAX ?ctx =
     (\<lparr>ctx_status = 2, ctx_argcount = 2, ctx_name = ''=(load)'',
        ctx_L = [LFunction 1, LUserdata 9, LThread 0, LNil, LString ''unexpected symbol''],
        ctx_coro = [LFunction 1, LThread 1], threads = 2\<rparr>, Ended)"
    using T [THEN conjunct1] by (simp add: LUA_ERRSYNTAX_def)
  have b: "fst (await Signal_during_wait (load_thread_end LUA_ERRSYNTAX ?ctx)) =
     LuaReturn [LNil, LString ''unexpected symbol'']"
    using T [THEN conjunct2] by (simp add: LUA_ERRSYNTAX_def)
  from a b show ?thesis by (rule conjI)
qed

text \<open>
  C2 as stated fails: the parser thread does not always set the state to 2 when the compile
  primitive finishes. In a context that was cancelled while the reader was suspended,
  \<^verbatim>\<open>lua_load\<close> returns with the error raised by \<^verbatim>\<open>yield_loader\<close>, and \<^verbatim>\<open>load_thread\<close>
  returns at once: the state stays 3.
\<close>

theorem load_thread_end_cancelled:
  "\<not> (\<forall>st ctx stack v. ctx_coro ctx = stack @ [v] \<longrightarrow> ctx_status (fst (load_thread_end st ctx)) = 2)"
proof
  assume a: "\<forall>st ctx stack v. ctx_coro ctx = stack @ [v] \<longrightarrow> ctx_status (fst (load_thread_end st ctx)) = 2"
  let ?ctx = "\<lparr>ctx_status = 3, ctx_argcount = 0, ctx_name = [], ctx_L = [LFunction 0],
               ctx_coro = [LFunction 0, LString []], threads = 2\<rparr>"
  from a [rule_format, of ?ctx "[LFunction 0]" "LString []" LUA_ERRRUN]
  have "ctx_status (fst (load_thread_end LUA_ERRRUN ?ctx)) = 2" by simp
  then show False by (simp add: load_thread_end_def)
qed

subsection \<open>A load through the trampoline and a load without yields\<close>

text \<open>
  For the compile primitive the blocks of the reader that does not yield, fed one after the
  other, are their concatenation fed as one block.
\<close>

lemma lua_load_blocks:
  "\<forall>c \<in> set cs. c \<noteq> [] \<Longrightarrow>
   fst (lua_load P plain_reader buf cs) = fst (lua_load P plain_reader (buf @ concat cs) [])"
proof (induction P arbitrary: buf cs)
  case (Result r)
  show ?case by simp
next
  case (NeedChar k)
  show ?case
  proof (cases buf)
    case (Cons c b)
    then show ?thesis using NeedChar.IH [OF rangeI [of k "Some c"] NeedChar.prems, of b] by simp
  next
    case Nil
    note buf = this
    show ?thesis
    proof (cases cs)
      case Nil
      then show ?thesis using buf by simp
    next
      case (Cons c1 cs1)
      then obtain x xs where c1: "c1 = x # xs" using NeedChar.prems by (cases c1) auto
      have "\<forall>c \<in> set cs1. c \<noteq> []" using NeedChar.prems Cons by simp
      from NeedChar.IH [OF rangeI [of k "Some x"] this, of xs]
      show ?thesis using buf Cons c1 by simp
    qed
  qed
qed

lemma lua_load_concat:
  assumes "\<forall>c \<in> set cs. c \<noteq> []"
  shows "fst (lua_load P plain_reader [] cs) = fst (lua_load P plain_reader [] [concat cs])"
proof -
  have "fst (lua_load P plain_reader [] [concat cs]) = fst (lua_load P plain_reader (concat cs) [])"
  proof (cases P)
    case (Result r)
    then show ?thesis by simp
  next
    case (NeedChar k)
    then show ?thesis by (cases "concat cs") (simp_all del: concat_eq_Nil_conv)
  qed
  then show ?thesis using lua_load_blocks [OF assms, of P "[]"] by simp
qed

lemma next_block_answer:
  "resume_coro number2str (next_block cs) ret ctx =
     ret (case cs of [] \<Rightarrow> EndOfInput (Done, []) | c # cs' \<Rightarrow> Chunk c (Done, cs')) ctx"
  by (cases cs) (simp_all add: lua_isnoneornil_def)

lemma yielding_reader_simps:
  "yielding_reader (Done, cs) = next_block cs"
  "yielding_reader (sc, cs) = play sc (next_block cs)"
  by (simp_all add: yielding_reader_def)

text \<open>
  Once the yields are made, the parser thread runs through: the compile primitive gets the
  blocks as from the reader that does not yield.
\<close>

lemma lua_load_yielding_plain:
  "\<exists>junk n a. lua_load_yielding number2str yielding_reader P buf (Done, cs) ret ctx =
     ret (fst (fst (lua_load P plain_reader buf cs)))
       (ctx\<lparr>ctx_coro := ctx_coro ctx @ junk @ [snd (fst (lua_load P plain_reader buf cs))],
             threads := n, ctx_argcount := a\<rparr>)"
proof (induction P arbitrary: buf cs ctx)
  case (Result r)
  have "lua_load_yielding number2str yielding_reader (Result r) buf (Done, cs) ret ctx =
     ret (fst (fst (lua_load (Result r) plain_reader buf cs)))
       (ctx\<lparr>ctx_coro := ctx_coro ctx @ [] @ [snd (fst (lua_load (Result r) plain_reader buf cs))],
             threads := threads ctx, ctx_argcount := ctx_argcount ctx\<rparr>)"
    by simp
  then show ?case by blast
next
  case (NeedChar k)
  show ?case
  proof (cases buf)
    case (Cons c b)
    from NeedChar.IH [OF rangeI [of k "Some c"], of b cs ctx] show ?thesis using Cons by simp
  next
    case Nil
    note buf = this
    let ?ctx1 = "ctx\<lparr>ctx_coro := ctx_coro ctx @ [LThread (threads ctx)], threads := threads ctx + 1,
             ctx_argcount := 0\<rparr>"
    have step: "\<exists>junk n a. lua_load_yielding number2str yielding_reader P' buf' (Done, cs') ret ?ctx1 =
       ret (fst (fst (lua_load P' plain_reader buf' cs')))
         (ctx\<lparr>ctx_coro := ctx_coro ctx @ junk @ [snd (fst (lua_load P' plain_reader buf' cs'))],
             threads := n, ctx_argcount := a\<rparr>)" if "P' \<in> range k" for P' buf' cs'
    proof -
      from NeedChar.IH [OF that, of buf' cs' ?ctx1] obtain junk n a where
        "lua_load_yielding number2str yielding_reader P' buf' (Done, cs') ret ?ctx1 =
          ret (fst (fst (lua_load P' plain_reader buf' cs')))
            (?ctx1\<lparr>ctx_coro := ctx_coro ?ctx1 @ junk @ [snd (fst (lua_load P' plain_reader buf' cs'))],
               threads := n, ctx_argcount := a\<rparr>)"
        by blast
      then have "lua_load_yielding number2str yielding_reader P' buf' (Done, cs') ret ?ctx1 =
          ret (fst (fst (lua_load P' plain_reader buf' cs')))
            (ctx\<lparr>ctx_coro := ctx_coro ctx @ (LThread (threads ctx) # junk) @ [snd (fst (lua_load P' plain_reader buf' cs'))],
               threads := n, ctx_argcount := a\<rparr>)"
        by simp
      then show ?thesis by blast
    qed
    show ?thesis
    proof (cases cs)
      case Nil
      then show ?thesis using step [OF rangeI [of k None], of "[]" "[]"] buf
        by (simp add: yield_loader_def yielding_reader_simps(1) lua_isnoneornil_def)
    next
      case (Cons c1 cs1)
      show ?thesis
      proof (cases c1)
        case Nil
        then show ?thesis using step [OF rangeI [of k None], of "[]" cs1] buf Cons
          by (simp add: yield_loader_def yielding_reader_simps(1) lua_isnoneornil_def)
      next
        case (Cons x xs)
        then show ?thesis using step [OF rangeI [of k "Some x"], of xs cs1] buf \<open>cs = c1 # cs1\<close>
          by (simp add: yield_loader_def yielding_reader_simps(1) lua_isnoneornil_def)
      qed
    qed
  qed
qed

text \<open>
  One suspension of the load and its resume, when the signal of the yield finds the caller
  in its \<^verbatim>\<open>wait\<close>: the values of the yield are handed to the scheduler, and the reader goes
  on with the values it is resumed with.
\<close>

lemma yield_and_resume:
  assumes "ctx_status ctx = 0"
  shows "resume_all (await Signal_during_wait (resume_coro number2str (Yield y k) ret ctx))
           ((args, t) # rest) =
     (let (yields, final) =
            resume_all (await t (resume_coro number2str (k args) ret
                                 (ctx\<lparr>ctx_argcount := int (length args)\<rparr>))) rest
      in (y # yields, final))"
proof -
  let ?K = "\<lambda>ctx'. if ctx_status ctx' = 3 then ret (Raised (LString [])) ctx'
        else (case lua_xmove (ctx_L ctx') [] (ctx_argcount ctx') of
             None \<Rightarrow> (ctx', Crashed)
           | Some (stack, args) \<Rightarrow>
               resume_coro number2str (k args) ret (ctx'\<lparr>ctx_L := stack, ctx_status := 0\<rparr>))"
  let ?ctx1 = "ctx\<lparr>ctx_status := 1, ctx_argcount := int (length y), ctx_L := ctx_L ctx @ y\<rparr>"
  let ?ctx2 = "?ctx1\<lparr>ctx_argcount := int (length (ctx_L ctx @ y)) - int (length y), ctx_L := ctx_L ctx\<rparr>"
  have 1: "resume_coro number2str (Yield y k) ret ctx = (?ctx1, Waiting ?K)" by simp
  have 2: "await Signal_during_wait (?ctx1, Waiting ?K) = (LuaYield y, ?ctx2, Waiting ?K)"
    by (simp add: await_def pop_values_append)
  have "yieldable_load_continue t (?ctx2, Waiting ?K) args =
      await t (resume_coro number2str (k args) ret (ctx\<lparr>ctx_argcount := int (length args)\<rparr>))"
    using assms
    by (cases ctx) (simp add: yieldable_load_continue_def notify_all_def lua_xmove_append)
  then show ?thesis unfolding 1 2 by simp
qed

text \<open>
  The yields of a script, one after the other. \<open>t\<close> is the timing of the first signal and
  the resumes bring the timings of the signals after them; all but the last of these signals
  find the caller in its \<^verbatim>\<open>wait\<close>.
\<close>

lemma plays:
  assumes after: "\<And>a. resume_all (await (last (t # map snd resumes))
                        (resume_coro number2str c ret (ctx\<lparr>ctx_argcount := a\<rparr>))) [] = ([], final)"
    and "ctx_status ctx = 0"
    and "yields_of sc (map fst resumes) = Some ys"
    and "\<forall>t' \<in> set (butlast (t # map snd resumes)). t' = Signal_during_wait"
  shows "resume_all (await t (resume_coro number2str (play sc c) ret (ctx\<lparr>ctx_argcount := a\<rparr>)))
           resumes = (ys, final)"
  using assms(1,3,4)
proof (induction sc arbitrary: resumes t a ys)
  case Done
  then have "resumes = []" "ys = []" by (auto split: if_splits)
  then show ?case using Done.prems(1) [of a] by simp
next
  case (Yields y k)
  from Yields.prems(2) obtain args t1 rest ys' where
    r: "resumes = (args, t1) # rest" and y: "yields_of (k args) (map fst rest) = Some ys'"
    and ys: "ys = y # ys'"
    by (cases resumes) auto
  have t: "t = Signal_during_wait" using Yields.prems(3) r by simp
  have b: "\<forall>t' \<in> set (butlast (t1 # map snd rest)). t' = Signal_during_wait"
    using Yields.prems(3) r by simp
  have l: "last (t # map snd resumes) = last (t1 # map snd rest)" using r by simp
  have s: "ctx_status (ctx\<lparr>ctx_argcount := a\<rparr>) = 0" using assms(2) by simp
  have "resume_all (await t1 (resume_coro number2str (play (k args) c) ret
            (ctx\<lparr>ctx_argcount := int (length args)\<rparr>))) rest = (ys', final)"
    using Yields.IH [OF rangeI [of k args] _ y b, of "int (length args)"] Yields.prems(1) l by simp
  then show ?case
    using yield_and_resume [OF s, of number2str y "\<lambda>args. play (k args) c" ret args t1 rest]
    by (simp add: r t ys)
qed

lemma load_thread_end_running:
  assumes "ctx_status ctx = 0" and "t \<noteq> Signal_before_wait"
  shows "await t (load_thread_end st (ctx\<lparr>ctx_coro := stack @ [v], threads := n, ctx_argcount := a\<rparr>)) =
     (LuaReturn (if st = 0 then [v] else [LNil, v]),
      ctx\<lparr>ctx_coro := stack, threads := n, ctx_argcount := (if st = 0 then 1 else 2),
          ctx_L := ctx_L ctx @ (if st = 0 then [v] else [LNil, v]), ctx_status := 2\<rparr>,
      Ended)"
proof -
  let ?ctx1 = "ctx\<lparr>ctx_coro := stack @ [v], threads := n, ctx_argcount := a\<rparr>"
  let ?vals = "if st = 0 then [v] else [LNil, v]"
  let ?ctx2 = "ctx\<lparr>ctx_coro := stack, threads := n, ctx_argcount := (if st = 0 then 1 else 2),
          ctx_L := ctx_L ctx @ ?vals, ctx_status := 2\<rparr>"
  have "load_thread_end st ?ctx1 = (?ctx2, Ended)"
    using load_thread_end_moves [of ?ctx1 stack v st] assms(1) by (cases ctx) simp
  moreover have "await t (?ctx2, Ended) = (LuaReturn ?vals, ?ctx2, Ended)"
    using assms(2) by (rule await_completed [of t ?ctx2 "ctx_L ctx" ?vals]) simp_all
  ultimately show ?thesis by simp
qed

lemma load_after_yields:
  assumes "ctx_status ctx = 0" and "t \<noteq> Signal_before_wait"
  shows "resume_all (await t (lua_load_yielding number2str yielding_reader P buf (Done, cs)
                                load_thread_end ctx)) rest =
     ([], LuaReturn (if fst (fst (lua_load P plain_reader buf cs)) = 0
                     then [snd (fst (lua_load P plain_reader buf cs))]
                     else [LNil, snd (fst (lua_load P plain_reader buf cs))]))"
proof -
  obtain junk n a where
    "lua_load_yielding number2str yielding_reader P buf (Done, cs) load_thread_end ctx =
       load_thread_end (fst (fst (lua_load P plain_reader buf cs)))
         (ctx\<lparr>ctx_coro := (ctx_coro ctx @ junk) @ [snd (fst (lua_load P plain_reader buf cs))],
               threads := n, ctx_argcount := a\<rparr>)"
    using lua_load_yielding_plain [of number2str P buf cs load_thread_end ctx] by auto
  then have "await t (lua_load_yielding number2str yielding_reader P buf (Done, cs) load_thread_end ctx) =
      await t (load_thread_end (fst (fst (lua_load P plain_reader buf cs)))
         (ctx\<lparr>ctx_coro := (ctx_coro ctx @ junk) @ [snd (fst (lua_load P plain_reader buf cs))],
               threads := n, ctx_argcount := a\<rparr>))"
    by simp
  then show ?thesis
    unfolding load_thread_end_running [OF assms] by simp
qed

lemma blocks_after_yields:
  assumes "ctx_status ctx = 0" and "t \<noteq> Signal_before_wait"
  shows "resume_all (await t (resume_coro number2str (next_block cs)
       (\<lambda>ans ctx'. case ans of
                Chunk (c # cs) s' \<Rightarrow> lua_load_yielding number2str yielding_reader (k (Some c)) cs s' load_thread_end ctx'
              | Chunk [] s' \<Rightarrow> lua_load_yielding number2str yielding_reader (k None) [] s' load_thread_end ctx'
              | EndOfInput s' \<Rightarrow> lua_load_yielding number2str yielding_reader (k None) [] s' load_thread_end ctx'
              | Raised v \<Rightarrow> load_thread_end LUA_ERRRUN (ctx'\<lparr>ctx_coro := ctx_coro ctx' @ [v]\<rparr>)) ctx)) rest =
     ([], LuaReturn (if fst (fst (lua_load (NeedChar k) plain_reader [] cs)) = 0
                     then [snd (fst (lua_load (NeedChar k) plain_reader [] cs))]
                     else [LNil, snd (fst (lua_load (NeedChar k) plain_reader [] cs))]))"
proof (cases cs)
  case Nil
  then show ?thesis using load_after_yields [OF assms, of number2str "k None" "[]" "[]" rest]
    unfolding next_block_answer by simp
next
  case (Cons c1 cs1)
  show ?thesis
  proof (cases c1)
    case Nil
    then show ?thesis using load_after_yields [OF assms, of number2str "k None" "[]" cs1 rest] Cons
      unfolding next_block_answer by simp
  next
    case (Cons x xs)
    then show ?thesis using load_after_yields [OF assms, of number2str "k (Some x)" xs cs1 rest] \<open>cs = c1 # cs1\<close>
      unfolding next_block_answer by simp
  qed
qed

text \<open>
  What C1 says holds in the schedules in which the parser thread starts after line 307, every
  signal of a yield finds the caller in its \<^verbatim>\<open>wait\<close>, and the signal of the completion does
  not come between the caller's test and its \<^verbatim>\<open>wait\<close>. The reader follows the script
  \<open>sc\<close> along the values it is resumed with, yielding the values \<open>ys\<close>, and then returns the
  blocks \<open>cs\<close> of the source, none of them empty (an empty block ends the input for
  \<^verbatim>\<open>lua_load\<close>). The parser reads at least one character, as that of \<^verbatim>\<open>lua_load\<close> does to
  tell a binary chunk from a text. Then the load, called with a function and with no name or
  a string as name, suspends once for every yield of the reader, with the values of that
  yield, and then returns what the compile primitive gives with a reader that does not yield
  and returns the concatenation of the blocks as one block: the compiled function, or
  \<^verbatim>\<open>nil\<close> and the error value.
\<close>

lemma trampoline_round_trip:
  assumes "args \<noteq> []" and "lua_isfunction (args ! 0)"
    and "lua_isnoneornil args 2 \<or> lua_isstring (args ! 1)"
    and "lua_parser = NeedChar k"
    and "\<forall>c \<in> set cs. c \<noteq> []"
    and "yields_of sc (map fst resumes) = Some ys"
    and "\<forall>t' \<in> set (butlast (t # map snd resumes)). t' = Signal_during_wait"
    and "last (t # map snd resumes) \<noteq> Signal_before_wait"
  shows "trampoline number2str yielding_reader lua_parser (sc, cs) uninit u False t args resumes =
     (ys, LuaReturn (if fst (fst (lua_load lua_parser plain_reader [] [concat cs])) = 0
                     then [snd (fst (lua_load lua_parser plain_reader [] [concat cs]))]
                     else [LNil, snd (fst (lua_load lua_parser plain_reader [] [concat cs]))]))"
proof -
  let ?name = "if lua_isnoneornil args 2 then ''=(load)''
               else (case lua_tolstring number2str (args ! 1) of Some n \<Rightarrow> n | None \<Rightarrow> [])"
  let ?ctx = "\<lparr>ctx_status = 0, ctx_argcount = uninit, ctx_name = ?name,
                ctx_L = args @ [LUserdata u, LThread 0], ctx_coro = [args ! 0, LThread 1], threads = 2\<rparr>"
  let ?R = "\<lambda>ans ctx'. case ans of
                Chunk (c # cs) s' \<Rightarrow> lua_load_yielding number2str yielding_reader (k (Some c)) cs s' load_thread_end ctx'
              | Chunk [] s' \<Rightarrow> lua_load_yielding number2str yielding_reader (k None) [] s' load_thread_end ctx'
              | EndOfInput s' \<Rightarrow> lua_load_yielding number2str yielding_reader (k None) [] s' load_thread_end ctx'
              | Raised v \<Rightarrow> load_thread_end LUA_ERRRUN (ctx'\<lparr>ctx_coro := ctx_coro ctx' @ [v]\<rparr>)"
  let ?out = "LuaReturn (if fst (fst (lua_load (NeedChar k) plain_reader [] cs)) = 0
                     then [snd (fst (lua_load (NeedChar k) plain_reader [] cs))]
                     else [LNil, snd (fst (lua_load (NeedChar k) plain_reader [] cs))])"
  have first: "yieldable_load number2str yielding_reader lua_parser (sc, cs) uninit u False t args =
      await t (resume_coro number2str (play sc (next_block cs)) ?R (?ctx\<lparr>ctx_argcount := 0\<rparr>))"
    using assms(1-4)
    by (auto simp add: yieldable_load_def load_thread_def yield_loader_def yielding_reader_simps(2) Let_def
          numeral_2_eq_2)
  have after: "resume_all (await (last (t # map snd resumes))
        (resume_coro number2str (next_block cs) ?R (?ctx\<lparr>ctx_argcount := a\<rparr>))) [] = ([], ?out)" for a
    by (rule blocks_after_yields [OF _ assms(8)]) simp
  have "resume_all (await t (resume_coro number2str (play sc (next_block cs)) ?R
          (?ctx\<lparr>ctx_argcount := 0\<rparr>))) resumes = (ys, ?out)"
    by (rule plays [OF after _ assms(6) assms(7)]) simp
  then have "trampoline number2str yielding_reader lua_parser (sc, cs) uninit u False t args resumes = (ys, ?out)"
    by (simp add: trampoline_def first)
  then show ?thesis
    using lua_load_concat [OF assms(5), of "NeedChar k"] assms(4) by simp
qed

text \<open>
  C1, the code at the failing input. The reader yields the text \<^verbatim>\<open>a\<close>, then yields the
  values it was resumed with, then returns the source \<^verbatim>\<open>x\<close> as one block; the parser
  accepts the sources of one character; the scheduler resumes with two numbers and then with
  nothing. When every signal of the parser thread finds the caller in its \<^verbatim>\<open>wait\<close>, the
  call suspends twice and returns the compiled function, as C1 says. When the parser thread
  runs before line 307 is done, the behaviour is undefined. When the parser thread has made
  the reader's first yield and signalled before the caller waits, the caller waits for good:
  no suspension, no result. The same happens at the second yield, after one suspension, and
  when the signal of the completion comes between the caller's test and its \<^verbatim>\<open>wait\<close>,
  after both. A completion signalled before the caller's test is seen by the test, and the
  function is returned.
\<close>

theorem trampoline_signal_before_wait:
  "trampoline (\<lambda>n. ''5'') yielding_reader
      (NeedChar (\<lambda>c. NeedChar (\<lambda>d. Result (if d = None then Compiled (LFunction 0)
                                             else Failed LUA_ERRSYNTAX (LString ''syntax'')))))
      (Yields [LString ''a''] (\<lambda>r. Yields r (\<lambda>r'. Done)), [''x'']) 77 9 False Signal_during_wait
      [LFunction 1]
      [([LNumber 4, LNumber 5], Signal_during_wait), ([], Signal_during_wait)] =
     ([[LString ''a''], [LNumber 4, LNumber 5]], LuaReturn [LFunction 0])
   \<and> trampoline (\<lambda>n. ''5'') yielding_reader
      (NeedChar (\<lambda>c. NeedChar (\<lambda>d. Result (if d = None then Compiled (LFunction 0)
                                             else Failed LUA_ERRSYNTAX (LString ''syntax'')))))
      (Yields [LString ''a''] (\<lambda>r. Yields r (\<lambda>r'. Done)), [''x'']) 77 9 True Signal_during_wait
      [LFunction 1]
      [([LNumber 4, LNumber 5], Signal_during_wait), ([], Signal_during_wait)] = ([], Undefined)
   \<and> trampoline (\<lambda>n. ''5'') yielding_reader
      (NeedChar (\<lambda>c. NeedChar (\<lambda>d. Result (if d = None then Compiled (LFunction 0)
                                             else Failed LUA_ERRSYNTAX (LString ''syntax'')))))
      (Yields [LString ''a''] (\<lambda>r. Yields r (\<lambda>r'. Done)), [''x'']) 77 9 False Signal_before_test
      [LFunction 1]
      [([LNumber 4, LNumber 5], Signal_during_wait), ([], Signal_during_wait)] = ([], Hang)
   \<and> trampoline (\<lambda>n. ''5'') yielding_reader
      (NeedChar (\<lambda>c. NeedChar (\<lambda>d. Result (if d = None then Compiled (LFunction 0)
                                             else Failed LUA_ERRSYNTAX (LString ''syntax'')))))
      (Yields [LString ''a''] (\<lambda>r. Yields r (\<lambda>r'. Done)), [''x'']) 77 9 False Signal_during_wait
      [LFunction 1]
      [([LNumber 4, LNumber 5], Signal_before_test), ([], Signal_during_wait)] = ([[LString ''a'']], Hang)
   \<and> trampoline (\<lambda>n. ''5'') yielding_reader
      (NeedChar (\<lambda>c. NeedChar (\<lambda>d. Result (if d = None then Compiled (LFunction 0)
                                             else Failed LUA_ERRSYNTAX (LString ''syntax'')))))
      (Yields [LString ''a''] (\<lambda>r. Yields r (\<lambda>r'. Done)), [''x'']) 77 9 False Signal_during_wait
      [LFunction 1]
      [([LNumber 4, LNumber 5], Signal_during_wait), ([], Signal_before_wait)] =
     ([[LString ''a''], [LNumber 4, LNumber 5]], Hang)
   \<and> trampoline (\<lambda>n. ''5'') yielding_reader
      (NeedChar (\<lambda>c. NeedChar (\<lambda>d. Result (if d = None then Compiled (LFunction 0)
                                             else Failed LUA_ERRSYNTAX (LString ''syntax'')))))
      (Yields [LString ''a''] (\<lambda>r. Yields r (\<lambda>r'. Done)), [''x'']) 77 9 False Signal_during_wait
      [LFunction 1]
      [([LNumber 4, LNumber 5], Signal_during_wait), ([], Signal_before_test)] =
     ([[LString ''a''], [LNumber 4, LNumber 5]], LuaReturn [LFunction 0])"
proof -
  have 1: "trampoline (\<lambda>n. ''5'') yielding_reader
      (NeedChar (\<lambda>c. NeedChar (\<lambda>d. Result (if d = None then Compiled (LFunction 0)
                                             else Failed LUA_ERRSYNTAX (LString ''syntax'')))))
      (Yields [LString ''a''] (\<lambda>r. Yields r (\<lambda>r'. Done)), [''x'']) 77 9 False Signal_during_wait
      [LFunction 1]
      [([LNumber 4, LNumber 5], Signal_during_wait), ([], Signal_during_wait)] =
     ([[LString ''a''], [LNumber 4, LNumber 5]], LuaReturn [LFunction 0])"
    by (simp add: trampoline_def yieldable_load_def load_thread_def yield_loader_def
        yielding_reader_def await_def lua_isnoneornil_def yieldable_load_continue_def notify_all_def
        pop_values_def lua_xmove_def load_thread_end_def LUA_ERRSYNTAX_def)
  have 2: "trampoline (\<lambda>n. ''5'') yielding_reader
      (NeedChar (\<lambda>c. NeedChar (\<lambda>d. Result (if d = None then Compiled (LFunction 0)
                                             else Failed LUA_ERRSYNTAX (LString ''syntax'')))))
      (Yields [LString ''a''] (\<lambda>r. Yields r (\<lambda>r'. Done)), [''x'']) 77 9 True Signal_during_wait
      [LFunction 1]
      [([LNumber 4, LNumber 5], Signal_during_wait), ([], Signal_during_wait)] = ([], Undefined)"
    by (simp add: trampoline_def yieldable_load_def lua_isnoneornil_def)
  have 3: "trampoline (\<lambda>n. ''5'') yielding_reader
      (NeedChar (\<lambda>c. NeedChar (\<lambda>d. Result (if d = None then Compiled (LFunction 0)
                                             else Failed LUA_ERRSYNTAX (LString ''syntax'')))))
      (Yields [LString ''a''] (\<lambda>r. Yields r (\<lambda>r'. Done)), [''x'']) 77 9 False Signal_before_test
      [LFunction 1]
      [([LNumber 4, LNumber 5], Signal_during_wait), ([], Signal_during_wait)] = ([], Hang)"
    by (simp add: trampoline_def yieldable_load_def load_thread_def yield_loader_def
        yielding_reader_def await_def lua_isnoneornil_def yieldable_load_continue_def notify_all_def
        pop_values_def lua_xmove_def load_thread_end_def LUA_ERRSYNTAX_def)
  have 4: "trampoline (\<lambda>n. ''5'') yielding_reader
      (NeedChar (\<lambda>c. NeedChar (\<lambda>d. Result (if d = None then Compiled (LFunction 0)
                                             else Failed LUA_ERRSYNTAX (LString ''syntax'')))))
      (Yields [LString ''a''] (\<lambda>r. Yields r (\<lambda>r'. Done)), [''x'']) 77 9 False Signal_during_wait
      [LFunction 1]
      [([LNumber 4, LNumber 5], Signal_before_test), ([], Signal_during_wait)] = ([[LString ''a'']], Hang)"
    by (simp add: trampoline_def yieldable_load_def load_thread_def yield_loader_def
        yielding_reader_def await_def lua_isnoneornil_def yieldable_load_continue_def notify_all_def
        pop_values_def lua_xmove_def load_thread_end_def LUA_ERRSYNTAX_def)
  have 5: "trampoline (\<lambda>n. ''5'') yielding_reader
      (NeedChar (\<lambda>c. NeedChar (\<lambda>d. Result (if d = None then Compiled (LFunction 0)
                                             else Failed LUA_ERRSYNTAX (LString ''syntax'')))))
      (Yields [LString ''a''] (\<lambda>r. Yields r (\<lambda>r'. Done)), [''x'']) 77 9 False Signal_during_wait
      [LFunction 1]
      [([LNumber 4, LNumber 5], Signal_during_wait), ([], Signal_before_wait)] =
     ([[LString ''a''], [LNumber 4, LNumber 5]], Hang)"
    by (simp add: trampoline_def yieldable_load_def load_thread_def yield_loader_def
        yielding_reader_def await_def lua_isnoneornil_def yieldable_load_continue_def notify_all_def
        pop_values_def lua_xmove_def load_thread_end_def LUA_ERRSYNTAX_def)
  have 6: "trampoline (\<lambda>n. ''5'') yielding_reader
      (NeedChar (\<lambda>c. NeedChar (\<lambda>d. Result (if d = None then Compiled (LFunction 0)
                                             else Failed LUA_ERRSYNTAX (LString ''syntax'')))))
      (Yields [LString ''a''] (\<lambda>r. Yields r (\<lambda>r'. Done)), [''x'']) 77 9 False Signal_during_wait
      [LFunction 1]
      [([LNumber 4, LNumber 5], Signal_during_wait), ([], Signal_before_test)] =
     ([[LString ''a''], [LNumber 4, LNumber 5]], LuaReturn [LFunction 0])"
    by (simp add: trampoline_def yieldable_load_def load_thread_def yield_loader_def
        yielding_reader_def await_def lua_isnoneornil_def yieldable_load_continue_def notify_all_def
        pop_values_def lua_xmove_def load_thread_end_def LUA_ERRSYNTAX_def)
  from 1 2 3 4 5 6 show ?thesis by (intro conjI)
qed

subsection \<open>A reader that raises\<close>

text \<open>
  When the reader raises an error, \<^verbatim>\<open>yield_loader\<close> calls \<^verbatim>\<open>lua_error\<close> on the parser's
  state, whose top is the coroutine it made for the reader: the guest gets \<^verbatim>\<open>nil\<close> and a
  coroutine, and the reader's message is left behind.
\<close>

lemma reader_error_returns_coroutine:
  "trampoline (\<lambda>n. ''5'') (\<lambda>s. Throw (LString ''no source'') s)
      (NeedChar (\<lambda>c. Result (Compiled (LFunction 0)))) () 77 9 False Signal_during_wait
      [LFunction 1] [] = ([], LuaReturn [LNil, LThread 1])"
  by (simp add: trampoline_def yieldable_load_def load_thread_def yield_loader_def
      await_def lua_isnoneornil_def pop_values_def lua_xmove_def load_thread_end_def LUA_ERRRUN_def)

subsection \<open>Cancelling a suspended load\<close>

text \<open>
  Finalizing the context of a load that is suspended in a yield of its reader, or that hangs
  there, ends the parser thread, so that \<^verbatim>\<open>join\<close> returns, and leaves the state 3.
\<close>

lemma load_ctx_gc_ends_suspended_load:
  assumes "reader s = Yield y k'"
  shows "load_ctx_gc (snd (await t (load_thread number2str reader (NeedChar k) s ctx))) = (ctx', th)
     \<Longrightarrow> th = Ended \<and> ctx_status ctx' = 3"
  using assms
  by (cases t) (auto simp add: load_thread_def yield_loader_def await_def load_ctx_gc_def notify_all_def
      load_thread_end_def Let_def split: option.splits)

end
